theory Spec2Isabelle
  imports Main "HOL-Library.Sublist" "HOL-Library.Signed_Division"
begin

section \<open>Python strings\<close>

text \<open>
  A Python \<open>str\<close> is modelled as a \<open>string\<close> holding ASCII text: one \<open>char\<close> per code
  point below 128. On such text \<open>str.isspace\<close> accepts the code points 9 to 13 and 28 to
  32, and \<open>str.lower\<close> changes the letters A to Z only. The one non-ASCII character of
  the program's own literals, the dash of the report lines, is written as its UTF-8 bytes.
\<close>

definition isspace :: "char \<Rightarrow> bool" where
  "isspace c = (let n = of_char c :: nat in (9 \<le> n \<and> n \<le> 13) \<or> (28 \<le> n \<and> n \<le> 32))"

definition lower_char :: "char \<Rightarrow> char" where
  "lower_char c =
     (let n = of_char c :: nat in if 65 \<le> n \<and> n \<le> 90 then char_of (n + 32) else c)"

definition lower :: "string \<Rightarrow> string" where
  "lower s = map lower_char s"

definition strip :: "string \<Rightarrow> string" where
  \<comment> \<open>\<open>s.strip()\<close>\<close>
  "strip s = rev (dropWhile isspace (rev (dropWhile isspace s)))"

definition strip_chars :: "string \<Rightarrow> string \<Rightarrow> string" where
  \<comment> \<open>\<open>s.strip(chars)\<close>\<close>
  "strip_chars cs s =
     rev (dropWhile (\<lambda>c. c \<in> set cs) (rev (dropWhile (\<lambda>c. c \<in> set cs) s)))"

definition rstrip_chars :: "string \<Rightarrow> string \<Rightarrow> string" where
  \<comment> \<open>\<open>s.rstrip(chars)\<close>\<close>
  "rstrip_chars cs s = rev (dropWhile (\<lambda>c. c \<in> set cs) (rev s))"

definition startswith :: "string \<Rightarrow> string \<Rightarrow> bool" where
  \<comment> \<open>\<open>s.startswith(p)\<close>\<close>
  "startswith s p = (take (length p) s = p)"

fun partition :: "string \<Rightarrow> string \<Rightarrow> (string \<times> string) option" where
  \<comment> \<open>\<open>s.partition(sep)\<close>: the text before and after the first occurrence of \<open>sep\<close>,
      \<open>None\<close> when there is none\<close>
  "partition [] sep = (if sep = [] then Some ([], []) else None)"
| "partition (c # cs) sep =
     (if startswith (c # cs) sep then Some ([], drop (length sep) (c # cs))
      else (case partition cs sep of
              None \<Rightarrow> None
            | Some (pre, post) \<Rightarrow> Some (c # pre, post)))"

definition find :: "string \<Rightarrow> string \<Rightarrow> nat option" where
  \<comment> \<open>\<open>s.find(sub)\<close>, with \<open>None\<close> for Python's \<open>-1\<close>\<close>
  "find s sub = map_option (\<lambda>(pre, post). length pre) (partition s sub)"

definition contains :: "string \<Rightarrow> string \<Rightarrow> bool" where
  \<comment> \<open>\<open>sub in s\<close>\<close>
  "contains s sub = (partition s sub \<noteq> None)"

definition split1 :: "string \<Rightarrow> string \<Rightarrow> string list" where
  \<comment> \<open>\<open>s.split(sep, 1)\<close>\<close>
  "split1 s sep =
     (case partition s sep of
        None \<Rightarrow> [s]
      | Some (pre, post) \<Rightarrow> [pre, post])"

fun split_char :: "char \<Rightarrow> string \<Rightarrow> string list" where
  \<comment> \<open>\<open>s.split(sep)\<close> for a separator of one character\<close>
  "split_char sep [] = [[]]"
| "split_char sep (c # cs) =
     (if c = sep then [] # split_char sep cs
      else (case split_char sep cs of
              [] \<Rightarrow> [[c]]
            | w # ws \<Rightarrow> (c # w) # ws))"

function split_ws :: "string \<Rightarrow> string list" where
  \<comment> \<open>\<open>s.split()\<close>: the maximal runs of characters that are not whitespace\<close>
  "split_ws s =
     (case dropWhile isspace s of
        [] \<Rightarrow> []
      | c # cs \<Rightarrow>
          (c # takeWhile (\<lambda>x. \<not> isspace x) cs) # split_ws (dropWhile (\<lambda>x. \<not> isspace x) cs))"
  by pat_completeness auto
termination
proof (relation "measure length")
  show "wf (measure length)" by simp
next
  fix s :: string and c cs
  assume h: "dropWhile isspace s = c # cs"
  have "length (dropWhile (\<lambda>x. \<not> isspace x) cs) \<le> length cs"
    by (rule length_dropWhile_le)
  moreover have "length (c # cs) \<le> length s"
    using length_dropWhile_le [of isspace s] h by simp
  ultimately show "(dropWhile (\<lambda>x. \<not> isspace x) cs, s) \<in> measure length"
    by simp
qed

declare split_ws.simps [simp del]

fun replace :: "string \<Rightarrow> string \<Rightarrow> string \<Rightarrow> string" where
  \<comment> \<open>\<open>s.replace(old, new)\<close> for a non-empty \<open>old\<close>: leftmost occurrences, not overlapping\<close>
  "replace [] old new = []"
| "replace (c # cs) old new =
     (if old \<noteq> [] \<and> startswith (c # cs) old
      then new @ replace (drop (length old) (c # cs)) old new
      else c # replace cs old new)"

fun join :: "string \<Rightarrow> string list \<Rightarrow> string" where
  \<comment> \<open>\<open>sep.join(xs)\<close>\<close>
  "join sep [] = []"
| "join sep [x] = x"
| "join sep (x # y # ys) = x @ sep @ join sep (y # ys)"

function str_digits :: "int \<Rightarrow> string" where
  \<comment> \<open>the decimal digits of a number that is not negative\<close>
  "str_digits n =
     (if n < 10 then [char_of (48 + n)]
      else str_digits (n div 10) @ [char_of (48 + n mod 10)])"
  by pat_completeness auto
termination
  by (relation "measure nat") auto

declare str_digits.simps [simp del]

definition str_int :: "int \<Rightarrow> string" where
  \<comment> \<open>\<open>str(i)\<close>\<close>
  "str_int i = (if i < 0 then ''-'' @ str_digits (- i) else str_digits i)"

fun group3 :: "string \<Rightarrow> string" where
  \<comment> \<open>on the reversed digits: a comma after every third digit that has a successor\<close>
  "group3 (a # b # c # d # ds) = a # b # c # CHR '','' # group3 (d # ds)"
| "group3 ds = ds"

definition format_commas :: "int \<Rightarrow> string" where
  \<comment> \<open>\<open>format(i, ',')\<close>\<close>
  "format_commas i =
     (if i < 0 then ''-'' @ rev (group3 (rev (str_digits (- i))))
      else rev (group3 (rev (str_digits i))))"

section \<open>Python values and the outside world\<close>

text \<open>
  The exceptions the modelled code can raise, by the class CPython 3.11 raises. A function
  that can raise returns \<open>py_error + 'a\<close>.
\<close>

datatype py_error = IndexError | AttributeError | TypeError | ValueError | KeyError

text \<open>
  A decoded JSON document as the Python value \<open>json.loads\<close> and \<open>resp.json()\<close> build. A
  \<open>dict\<close> is the list of its items in insertion order, its keys distinct. Numbers are
  integers: no code modelled here is given a fraction.
\<close>

datatype json =
    JNull
  | JBool bool
  | JInt int
  | JStr string
  | JArr "json list"
  | JObj "(string \<times> json) list"

definition dict_get :: "(string \<times> 'v) list \<Rightarrow> string \<Rightarrow> 'v \<Rightarrow> 'v" where
  \<comment> \<open>\<open>d.get(key, default)\<close>\<close>
  "dict_get d key dflt = (case map_of d key of None \<Rightarrow> dflt | Some v \<Rightarrow> v)"

definition has_key :: "(string \<times> 'v) list \<Rightarrow> string \<Rightarrow> bool" where
  \<comment> \<open>\<open>key in d\<close>\<close>
  "has_key d key = (map_of d key \<noteq> None)"

fun truthy :: "json \<Rightarrow> bool" where
  \<comment> \<open>\<open>bool(v)\<close>\<close>
  "truthy JNull = False"
| "truthy (JBool b) = b"
| "truthy (JInt n) = (n \<noteq> 0)"
| "truthy (JStr s) = (s \<noteq> [])"
| "truthy (JArr xs) = (xs \<noteq> [])"
| "truthy (JObj d) = (d \<noteq> [])"

fun as_int :: "json \<Rightarrow> py_error + int" where
  \<comment> \<open>the number a value is in a comparison with an \<open>int\<close> or under the format \<open>,\<close>
      (\<open>bool\<close> is a subclass of \<open>int\<close>); the other values raise there\<close>
  "as_int (JInt n) = Inr n"
| "as_int (JBool b) = Inr (if b then 1 else 0)"
| "as_int v = Inl TypeError"

fun is_error :: "json \<Rightarrow> bool" where
  \<comment> \<open>\<open>isinstance(data, dict) and "error" in data\<close>\<close>
  "is_error (JObj d) = has_key d ''error''"
| "is_error v = False"

definition error_dict :: "string \<Rightarrow> json" where
  \<comment> \<open>\<open>{"error": msg}\<close>\<close>
  "error_dict msg = JObj [(''error'', JStr msg)]"

text \<open>
  A \<open>datetime\<close> is a count of microseconds: for an aware one, the instant since the epoch
  in UTC; for a naive one (no offset in the text), the reading of its fields.
\<close>

datatype datetime = Naive int | Aware int

text \<open>
  What \<open>requests.get\<close> gives: a response with its status, its text and the result of
  \<open>resp.json()\<close> (the message of the exception when the body is not JSON), or an exception
  with its message.
\<close>

datatype http = Response int string "string + json" | Failed string

text \<open>
  The library functions and the configuration the program reads, as parameters:
  the HTTP client (by URL and query parameters), \<open>json.loads\<close> (\<open>None\<close> when it raises),
  \<open>base64.b64decode(c).decode("utf-8", errors="ignore")\<close>, \<open>datetime.fromisoformat\<close>
  (\<open>None\<close> when it raises), \<open>datetime.now(timezone.utc)\<close> in microseconds, \<open>str\<close> on a value
  that is not a string, \<open>str\<close> on an exception, and the registry key of the environment.
\<close>

record env =
  requests_get :: "string \<Rightarrow> (string \<times> json) list \<Rightarrow> http"
  json_loads :: "string \<Rightarrow> json option"
  b64decode_utf8 :: "json \<Rightarrow> py_error + string"
  fromisoformat :: "string \<Rightarrow> datetime option"
  now_utc :: int
  py_str :: "json \<Rightarrow> string"
  exc_str :: "py_error \<Rightarrow> string"
  LIBRARIES_IO_KEY :: string

definition fstr :: "env \<Rightarrow> json \<Rightarrow> string" where
  \<comment> \<open>a value inside an f-string: \<open>str(v)\<close>\<close>
  "fstr e v = (case v of JStr s \<Rightarrow> s | _ \<Rightarrow> py_str e v)"


section \<open>Query term extractor (github.py)\<close>

definition stopwords :: "string list" where
  "stopwords =
     [''how'', ''does'', ''do'', ''what'', ''is'', ''are'', ''where'', ''which'', ''find'',
      ''show'', ''me'', ''the'', ''a'', ''an'', ''in'', ''this'', ''codebase'', ''repo'',
      ''repository'', ''all'', ''any'', ''give'', ''explain'', ''tell'', ''work'', ''works'',
      ''implemented'', ''handled'', ''used'', ''using'', ''code'', ''related'']"

definition search_words :: "string \<Rightarrow> string list" where
  \<comment> \<open>\<open>words\<close> of \<open>extract_search_term\<close>\<close>
  "search_words question = split_ws (replace (replace (lower question) ''?'' '''') '','' '''')"

definition search_keywords :: "string \<Rightarrow> string list" where
  \<comment> \<open>\<open>keywords\<close> of \<open>extract_search_term\<close>\<close>
  "search_keywords question =
     filter (\<lambda>w. w \<notin> set stopwords \<and> length w > 2) (search_words question)"

definition extract_search_term :: "string \<Rightarrow> py_error + string" where
  "extract_search_term question =
     (let keywords = search_keywords question in
      if keywords \<noteq> [] then Inr (join '' '' (take 3 keywords))
      else (case split_ws question of
              [] \<Rightarrow> Inl IndexError
            | w # ws \<Rightarrow> Inr w))"

text \<open>
  The surviving tokens as the specification words them: the question in lower case, every
  question mark and comma removed, split on whitespace, without the stopwords and the
  tokens shorter than 3 characters.
\<close>

definition spec_tokens :: "string \<Rightarrow> string list" where
  "spec_tokens question =
     filter (\<lambda>w. w \<notin> set stopwords \<and> \<not> length w < 3)
       (split_ws (filter (\<lambda>c. c \<noteq> CHR ''?'' \<and> c \<noteq> CHR '','') (lower question)))"

section \<open>HTTP accessors (github.py, tools/packages.py)\<close>

definition GITHUB_BASE :: string where
  "GITHUB_BASE = ''https://api.github.com''"

definition LIBRARIES_IO_BASE :: string where
  "LIBRARIES_IO_BASE = ''https://libraries.io/api''"

definition dict_set :: "(string \<times> 'v) list \<Rightarrow> string \<Rightarrow> 'v \<Rightarrow> (string \<times> 'v) list" where
  \<comment> \<open>\<open>d[key] = v\<close>\<close>
  "dict_set d key v =
     (if has_key d key then map (\<lambda>(k, old). if k = key then (k, v) else (k, old)) d
      else d @ [(key, v)])"

definition get :: "env \<Rightarrow> string \<Rightarrow> (string \<times> json) list \<Rightarrow> json" where
  \<comment> \<open>\<open>_get\<close> of github.py\<close>
  "get e endpoint params =
     (case requests_get e (GITHUB_BASE @ ''/'' @ endpoint) params of
        Failed msg \<Rightarrow> error_dict msg
      | Response status text body \<Rightarrow>
          if status = 200 then (case body of Inl msg \<Rightarrow> error_dict msg | Inr data \<Rightarrow> data)
          else error_dict (''GitHub API '' @ str_int status @ '': '' @ take 200 text))"

definition api_get :: "env \<Rightarrow> string \<Rightarrow> (string \<times> json) list \<Rightarrow> json" where
  \<comment> \<open>\<open>_api_get\<close> of tools/packages.py\<close>
  "api_get e endpoint params =
     (if LIBRARIES_IO_KEY e = [] then error_dict ''LIBRARIES_IO_API_KEY not set''
      else
        (case requests_get e (LIBRARIES_IO_BASE @ ''/'' @ endpoint)
                (dict_set params ''api_key'' (JStr (LIBRARIES_IO_KEY e))) of
           Failed msg \<Rightarrow> error_dict msg
         | Response status text body \<Rightarrow>
             if status = 200 then (case body of Inl msg \<Rightarrow> error_dict msg | Inr data \<Rightarrow> data)
             else error_dict (''API returned '' @ str_int status @ '': '' @ take 200 text)))"

section \<open>Months since a release (tools/packages.py)\<close>

definition timedelta_days :: "int \<Rightarrow> int" where
  \<comment> \<open>\<open>.days\<close> of a \<open>timedelta\<close> of so many microseconds: the seconds and microseconds of
      a normalised \<open>timedelta\<close> are never negative, so the days are rounded down\<close>
  "timedelta_days us = us div 86400000000"

definition int_div30 :: "int \<Rightarrow> int" where
  \<comment> \<open>\<open>int(days / 30)\<close>: \<open>int\<close> truncates toward zero. The float quotient of a day count
      (below \<open>2 ^ 22\<close> in size for any two \<open>datetime\<close>s) keeps its integer part.\<close>
  "int_div30 days = (if days < 0 then - ((- days) div 30) else days div 30)"

definition months_since :: "env \<Rightarrow> json \<Rightarrow> int option" where
  \<comment> \<open>\<open>_months_since\<close>. Every exception of the \<open>try\<close> block gives \<open>None\<close>: a value
      without \<open>replace\<close>, a text \<open>fromisoformat\<close> rejects, and the \<open>TypeError\<close> of
      subtracting a naive \<open>datetime\<close> from the aware \<open>now\<close>.\<close>
  "months_since e date_str =
     (case date_str of
        JStr s \<Rightarrow>
          if s = [] then None
          else (case fromisoformat e (replace s ''Z'' ''+00:00'') of
                  None \<Rightarrow> None
                | Some (Naive t) \<Rightarrow> None
                | Some (Aware t) \<Rightarrow> Some (int_div30 (timedelta_days (now_utc e - t))))
      | _ \<Rightarrow> None)"

section \<open>Manifest parser (tools/packages.py)\<close>

text \<open>
  \<open>_extract_packages\<close> appends to \<open>packages\<close> inside one \<open>try\<close> whose handler passes:
  an exception ends the loop and the packages appended so far are returned. Each loop
  carries \<open>packages\<close> and returns it where the source would raise.
\<close>

fun package_json_loop :: "json \<Rightarrow> string list \<Rightarrow> (string \<times> json) list \<Rightarrow> (string \<times> json) list" where
  "package_json_loop data [] packages = packages"
| "package_json_loop data (section # sections) packages =
     (case data of
        JObj d \<Rightarrow>
          (case dict_get d section (JObj []) of
             JObj items \<Rightarrow> package_json_loop data sections (packages @ items)
           | _ \<Rightarrow> packages)
      | _ \<Rightarrow> packages)"

definition requirements_line :: "string \<Rightarrow> py_error + (string \<times> json) list" where
  \<comment> \<open>the body of the loop over the lines of requirements.txt: what it appends\<close>
  "requirements_line raw =
     (let line = strip raw in
      if line \<noteq> [] \<and> \<not> startswith line ''#'' \<and> \<not> startswith line ''-'' then
        (if contains line ''=='' then
           (case split1 line ''=='' of
              [name, version] \<Rightarrow> Inr [(strip name, JStr (''=='' @ strip version))]
            | _ \<Rightarrow> Inl ValueError)
         else if contains line ''>='' then
           (case split1 line ''>='' of
              [name, version] \<Rightarrow> Inr [(strip name, JStr (''>='' @ strip version))]
            | _ \<Rightarrow> Inl ValueError)
         else Inr [(strip line, JStr [])])
      else Inr [])"

fun requirements_loop :: "string list \<Rightarrow> (string \<times> json) list \<Rightarrow> (string \<times> json) list" where
  "requirements_loop [] packages = packages"
| "requirements_loop (raw # rest) packages =
     (case requirements_line raw of
        Inl err \<Rightarrow> packages
      | Inr new \<Rightarrow> requirements_loop rest (packages @ new))"

fun cargo_loop :: "string list \<Rightarrow> bool \<Rightarrow> (string \<times> json) list \<Rightarrow> (string \<times> json) list" where
  "cargo_loop [] in_deps packages = packages"
| "cargo_loop (raw # rest) in_deps packages =
     (let line = strip raw in
      if line = ''[dependencies]'' \<or> line = ''[dev-dependencies]'' then cargo_loop rest True packages
      else if startswith line ''['' then cargo_loop rest False packages
      else if in_deps \<and> contains line ''='' then
        (case split1 line ''='' of
           [name, version] \<Rightarrow>
             cargo_loop rest in_deps
               (packages @ [(strip name, JStr (strip_chars [CHR 0x22] (strip version)))])
         | _ \<Rightarrow> packages)
      else cargo_loop rest in_deps packages)"

fun gomod_loop :: "string list \<Rightarrow> (string \<times> json) list \<Rightarrow> (string \<times> json) list" where
  "gomod_loop [] packages = packages"
| "gomod_loop (raw # rest) packages =
     (let line = strip raw in
      if line \<noteq> [] \<and> \<not> startswith line ''//'' \<and> \<not> startswith line ''module''
         \<and> \<not> startswith line ''go '' then
        (case split_ws line of
           p0 # p1 # ps \<Rightarrow> gomod_loop rest (packages @ [(p0, JStr p1)])
         | _ \<Rightarrow> gomod_loop rest packages)
      else gomod_loop rest packages)"

definition extract_packages :: "env \<Rightarrow> string \<Rightarrow> string \<Rightarrow> (string \<times> json) list" where
  \<comment> \<open>\<open>_extract_packages\<close>\<close>
  "extract_packages e filename content =
     (if filename = ''package.json'' then
        (case find content ''{'' of
           None \<Rightarrow> []
         | Some json_start \<Rightarrow>
             (case json_loads e (drop json_start content) of
                None \<Rightarrow> []
              | Some data \<Rightarrow> package_json_loop data [''dependencies'', ''devDependencies''] []))
      else if filename = ''requirements.txt'' then
        requirements_loop (split_char (CHR 0x0A) content) []
      else if filename = ''Cargo.toml'' then
        cargo_loop (split_char (CHR 0x0A) content) False []
      else if filename = ''go.mod'' then
        gomod_loop (split_char (CHR 0x0A) content) []
      else [])"

text \<open>
  The lines of a requirements.txt that declare a package, as the specification words them:
  stripped, not blank, not a comment (\<open>#\<close>) and not an option (\<open>-\<close>).
\<close>

definition requirement_lines :: "string \<Rightarrow> string list" where
  "requirement_lines content =
     filter (\<lambda>l. l \<noteq> [] \<and> \<not> prefix ''#'' l \<and> \<not> prefix ''-'' l)
       (map strip (split_char (CHR 0x0A) content))"

text \<open>
  What one declaring line contributes: the line cut at the first \<open>==\<close> when it has one,
  else at the first \<open>>=\<close> when it has one, else kept whole with no constraint.
\<close>

definition requirement_entry :: "string \<Rightarrow> string \<times> json" where
  "requirement_entry l =
     (case partition l ''=='' of
        Some (a, b) \<Rightarrow> (strip a, JStr (''=='' @ strip b))
      | None \<Rightarrow>
          (case partition l ''>='' of
             Some (a, b) \<Rightarrow> (strip a, JStr (''>='' @ strip b))
           | None \<Rightarrow> (l, JStr [])))"

section \<open>Repository client (github.py)\<close>

definition get_file_content :: "env \<Rightarrow> string \<Rightarrow> string \<Rightarrow> py_error + string" where
  \<comment> \<open>\<open>data["content"]\<close> raises \<open>KeyError\<close> when the key is absent; the decoder can raise\<close>
  "get_file_content e repo file_path =
     (let data = get e (''repos/'' @ repo @ ''/contents/'' @ file_path) [] in
      if is_error data then
        (case data of
           JObj d \<Rightarrow> Inr (''Error fetching '' @ file_path @ '': '' @ fstr e (dict_get d ''error'' JNull))
         | _ \<Rightarrow> Inl TypeError)
      else
        (case data of
           JObj d \<Rightarrow>
             if dict_get d ''encoding'' JNull = JStr ''base64'' then
               (case map_of d ''content'' of
                  None \<Rightarrow> Inl KeyError
                | Some c \<Rightarrow> b64decode_utf8 e c)
             else Inr (''Could not decode '' @ file_path)
         | _ \<Rightarrow> Inr (''Could not decode '' @ file_path)))"

definition package_files :: "string list" where
  "package_files =
     [''package.json'', ''requirements.txt'', ''go.mod'',
      ''Cargo.toml'', ''pom.xml'', ''Gemfile'', ''composer.json'']"

fun package_files_loop ::
  "env \<Rightarrow> string \<Rightarrow> string list \<Rightarrow> (string \<times> string) list \<Rightarrow> py_error + (string \<times> string) list" where
  "package_files_loop e repo [] found = Inr found"
| "package_files_loop e repo (filename # rest) found =
     (case get_file_content e repo filename of
        Inl err \<Rightarrow> Inl err
      | Inr content \<Rightarrow>
          if \<not> startswith content ''Error''
          then package_files_loop e repo rest (dict_set found filename content)
          else package_files_loop e repo rest found)"

definition get_package_files :: "env \<Rightarrow> string \<Rightarrow> py_error + (string \<times> string) list" where
  "get_package_files e repo = package_files_loop e repo package_files []"

definition get_repo_info :: "env \<Rightarrow> string \<Rightarrow> py_error + (string \<times> json) list" where
  "get_repo_info e repo =
     (let data = get e (''repos/'' @ repo) [] in
      case data of
        JObj d \<Rightarrow>
          if has_key d ''error'' then Inr d
          else
            (let license = dict_get d ''license'' JNull in
             case (if truthy license
                   then (case dict_get d ''license'' (JObj []) of
                           JObj l \<Rightarrow> Inr (dict_get l ''name'' JNull)
                         | _ \<Rightarrow> Inl AttributeError)
                   else Inr JNull) of
               Inl err \<Rightarrow> Inl err
             | Inr license_name \<Rightarrow>
                 Inr [(''name'', dict_get d ''full_name'' JNull),
                      (''description'', dict_get d ''description'' JNull),
                      (''language'', dict_get d ''language'' JNull),
                      (''stars'', dict_get d ''stargazers_count'' JNull),
                      (''forks'', dict_get d ''forks_count'' JNull),
                      (''open_issues'', dict_get d ''open_issues_count'' JNull),
                      (''default_branch'', dict_get d ''default_branch'' JNull),
                      (''topics'', dict_get d ''topics'' (JArr [])),
                      (''license'', license_name)])
      | _ \<Rightarrow> Inl AttributeError)"

section \<open>Dependency health checker (tools/packages.py)\<close>

definition PACKAGE_FILES :: "(string \<times> string) list" where
  "PACKAGE_FILES =
     [(''package.json'', ''npm''),
      (''requirements.txt'', ''pypi''),
      (''go.mod'', ''go''),
      (''Cargo.toml'', ''cargo''),
      (''pom.xml'', ''maven''),
      (''Gemfile'', ''rubygems''),
      (''composer.json'', ''packagist'')]"

definition em_dash :: string where
  \<comment> \<open>U+2014 in UTF-8\<close>
  "em_dash = [CHR 0xE2, CHR 0x80, CHR 0x94]"

definition fetch_package :: "env \<Rightarrow> string \<Rightarrow> string \<times> json \<Rightarrow> string \<times> json \<times> json" where
  "fetch_package e platform pkg_tuple =
     (case pkg_tuple of
        (pkg_name, version) \<Rightarrow> (pkg_name, version, api_get e (platform @ ''/'' @ pkg_name) []))"

definition package_issues :: "env \<Rightarrow> (string \<times> json) list \<Rightarrow> py_error + string list" where
  \<comment> \<open>the list \<open>issues\<close> of one fetched record; \<open>contributors < 2\<close> raises \<open>TypeError\<close> on a
      value that is not a number\<close>
  "package_issues e d =
     (let months = months_since e (dict_get d ''latest_release_published_at'' (JStr []));
          deprecated = dict_get d ''deprecated'' (JBool False);
          contributors = dict_get d ''contributions_count'' (JInt 0);
          issues1 = (if truthy deprecated then [''DEPRECATED''] else []);
          issues2 = (case months of
                       None \<Rightarrow> []
                     | Some m \<Rightarrow> if m > 12 then [''no release in '' @ str_int m @ ''mo''] else [])
      in case as_int contributors of
           Inl err \<Rightarrow> Inl err
         | Inr c \<Rightarrow> Inr (issues1 @ issues2 @ (if c < 2 then [''< 2 contributors''] else [])))"

text \<open>
  One pass of the loop over \<open>fetch_results\<close> appends one line to one of three lists: to
  \<open>all_results\<close> when the lookup failed, to \<open>risky\<close>, or to \<open>healthy\<close>.
\<close>

datatype entry = Unknown string | Risky string | Healthy string

definition classify :: "env \<Rightarrow> string \<times> json \<times> json \<Rightarrow> py_error + entry" where
  "classify e fetched =
     (case fetched of
        (pkg_name, version, data) \<Rightarrow>
          if is_error data then
            Inr (Unknown (''  ? '' @ pkg_name @ '' '' @ em_dash @ '' could not fetch info''))
          else
            (case data of
               JObj d \<Rightarrow>
                 (case package_issues e d of
                    Inl err \<Rightarrow> Inl err
                  | Inr issues \<Rightarrow>
                      if issues \<noteq> [] then
                        Inr (Risky (''  [!] '' @ pkg_name @ '' '' @ fstr e version @ '' '' @ em_dash
                                    @ '' '' @ join '', '' issues))
                      else Inr (Healthy (''  [ok] '' @ pkg_name @ '' '' @ fstr e version)))
             | _ \<Rightarrow> Inl AttributeError))"

fun classify_loop ::
  "env \<Rightarrow> (string \<times> json \<times> json) list \<Rightarrow> string list \<times> string list \<times> string list
     \<Rightarrow> py_error + (string list \<times> string list \<times> string list)" where
  "classify_loop e [] state = Inr state"
| "classify_loop e (fetched # rest) (all_results, risky, healthy) =
     (case classify e fetched of
        Inl err \<Rightarrow> Inl err
      | Inr (Unknown line) \<Rightarrow> classify_loop e rest (all_results @ [line], risky, healthy)
      | Inr (Risky line) \<Rightarrow> classify_loop e rest (all_results, risky @ [line], healthy)
      | Inr (Healthy line) \<Rightarrow> classify_loop e rest (all_results, risky, healthy @ [line]))"

definition file_section :: "env \<Rightarrow> string \<Rightarrow> string \<Rightarrow> py_error + string list" where
  \<comment> \<open>what one pass of the loop over \<open>package_docs\<close> appends to \<open>all_results\<close>\<close>
  "file_section e filename content =
     (case map_of PACKAGE_FILES filename of
        None \<Rightarrow> Inr []
      | Some platform \<Rightarrow>
          if platform = [] then Inr []
          else
            (let packages = extract_packages e filename content in
             if packages = [] then Inr []
             else
               (case classify_loop e (map (fetch_package e platform) (take 20 packages))
                       ([[CHR 0x0A] @ filename @ '' ('' @ platform @ ''):''], [], []) of
                  Inl err \<Rightarrow> Inl err
                | Inr (all_results, risky, healthy) \<Rightarrow> Inr (all_results @ risky @ healthy))))"

fun files_loop :: "env \<Rightarrow> (string \<times> string) list \<Rightarrow> string list \<Rightarrow> py_error + string list" where
  "files_loop e [] all_results = Inr all_results"
| "files_loop e ((filename, content) # rest) all_results =
     (case file_section e filename content of
        Inl err \<Rightarrow> Inl err
      | Inr lines \<Rightarrow> files_loop e rest (all_results @ lines))"

definition check_dependencies :: "env \<Rightarrow> string \<Rightarrow> string" where
  \<comment> \<open>the handler of the outer \<open>try\<close> turns every exception into one line\<close>
  "check_dependencies e repo_name =
     (case get_package_files e repo_name of
        Inl err \<Rightarrow> ''Error checking dependencies: '' @ exc_str e err
      | Inr package_docs \<Rightarrow>
          if package_docs = [] then
            ''No package files found in '' @ [CHR 0x27] @ repo_name @ [CHR 0x27] @ ''.'' @ [CHR 0x0A]
            @ ''Supported: '' @ join '', '' (map fst PACKAGE_FILES)
          else
            (case files_loop e package_docs [] of
               Inl err \<Rightarrow> ''Error checking dependencies: '' @ exc_str e err
             | Inr all_results \<Rightarrow>
                 ''Dependency health check for '' @ [CHR 0x27] @ repo_name @ [CHR 0x27] @ '':''
                 @ [CHR 0x0A] @ join [CHR 0x0A] all_results))"

section \<open>Alternatives (tools/packages.py)\<close>

fun map_err :: "('a \<Rightarrow> py_error + 'b) \<Rightarrow> 'a list \<Rightarrow> py_error + 'b list" where
  \<comment> \<open>a comprehension or loop whose body can raise: the first exception ends it\<close>
  "map_err f [] = Inr []"
| "map_err f (x # xs) =
     (case f x of
        Inl err \<Rightarrow> Inl err
      | Inr y \<Rightarrow> (case map_err f xs of Inl err \<Rightarrow> Inl err | Inr ys \<Rightarrow> Inr (y # ys)))"

definition iter_values :: "json \<Rightarrow> py_error + json list" where
  \<comment> \<open>\<open>for p in data\<close>: the elements of a list, the keys of a \<open>dict\<close>, the characters of a
      string; the other values are not iterable\<close>
  "iter_values data =
     (case data of
        JArr ps \<Rightarrow> Inr ps
      | JObj d \<Rightarrow> Inr (map (\<lambda>(k, v). JStr k) d)
      | JStr s \<Rightarrow> Inr (map (\<lambda>c. JStr [c]) s)
      | _ \<Rightarrow> Inl TypeError)"

definition name_differs :: "string \<Rightarrow> json \<Rightarrow> py_error + bool" where
  \<comment> \<open>\<open>p.get("name", "").lower() != package_name.lower()\<close>\<close>
  "name_differs package_name p =
     (case p of
        JObj d \<Rightarrow>
          (case dict_get d ''name'' (JStr []) of
             JStr n \<Rightarrow> Inr (lower n \<noteq> lower package_name)
           | _ \<Rightarrow> Inl AttributeError)
      | _ \<Rightarrow> Inl AttributeError)"

fun alt_filter :: "string \<Rightarrow> json list \<Rightarrow> py_error + json list" where
  \<comment> \<open>\<open>[p for p in data if ...]\<close>\<close>
  "alt_filter package_name [] = Inr []"
| "alt_filter package_name (p # ps) =
     (case name_differs package_name p of
        Inl err \<Rightarrow> Inl err
      | Inr keep \<Rightarrow>
          (case alt_filter package_name ps of
             Inl err \<Rightarrow> Inl err
           | Inr rest \<Rightarrow> Inr (if keep then p # rest else rest)))"

definition stars_of :: "json \<Rightarrow> py_error + int" where
  \<comment> \<open>\<open>x.get("stars", 0)\<close> as a number\<close>
  "stars_of p =
     (case p of
        JObj d \<Rightarrow> as_int (dict_get d ''stars'' (JInt 0))
      | _ \<Rightarrow> Inl AttributeError)"

definition sort_by_stars :: "json list \<Rightarrow> py_error + json list" where
  \<comment> \<open>\<open>alternatives.sort(key=..., reverse=True)\<close>: descending and stable. A key that is not
      a number raises, in the sort or at the latest where the line is formatted; the
      model raises \<open>TypeError\<close> here for both.\<close>
  "sort_by_stars ps =
     (case map_err stars_of ps of
        Inl err \<Rightarrow> Inl err
      | Inr keys \<Rightarrow> Inr (map snd (sort_key (\<lambda>(k, p). - k) (zip keys ps))))"

definition alternatives :: "string \<Rightarrow> json \<Rightarrow> py_error + json list" where
  \<comment> \<open>the list \<open>alternatives\<close> after the sort\<close>
  "alternatives package_name data =
     (case iter_values data of
        Inl err \<Rightarrow> Inl err
      | Inr items \<Rightarrow>
          (case alt_filter package_name items of
             Inl err \<Rightarrow> Inl err
           | Inr kept \<Rightarrow> sort_by_stars kept))"

definition slice_to :: "env \<Rightarrow> nat \<Rightarrow> json \<Rightarrow> py_error + string" where
  \<comment> \<open>\<open>v[:n]\<close> inside an f-string\<close>
  "slice_to e n v =
     (case v of
        JStr s \<Rightarrow> Inr (take n s)
      | JArr xs \<Rightarrow> Inr (py_str e (JArr (take n xs)))
      | _ \<Rightarrow> Inl TypeError)"

definition alt_block :: "env \<Rightarrow> json \<Rightarrow> py_error + string" where
  \<comment> \<open>the text appended to \<open>lines\<close> for one listed package\<close>
  "alt_block e pkg =
     (case pkg of
        JObj d \<Rightarrow>
          (let months = months_since e (dict_get d ''latest_release_published_at'' (JStr []));
               age_str = (case months of
                            None \<Rightarrow> ''unknown''
                          | Some m \<Rightarrow> str_int m @ '' months ago'');
               maintained = (case months of
                               None \<Rightarrow> ''Outdated''
                             | Some m \<Rightarrow> if m < 12 then ''Active'' else ''Outdated'')
           in case as_int (dict_get d ''stars'' (JInt 0)) of
                Inl err \<Rightarrow> Inl err
              | Inr stars \<Rightarrow>
                  (case slice_to e 100 (dict_get d ''description'' (JStr [])) of
                     Inl err \<Rightarrow> Inl err
                   | Inr description \<Rightarrow>
                       Inr (''  '' @ fstr e (dict_get d ''name'' JNull)
                            @ '' ('' @ fstr e (dict_get d ''platform'' (JStr ''?'')) @ '') ''
                            @ em_dash @ '' '' @ maintained @ [CHR 0x0A]
                            @ ''    Stars: '' @ format_commas stars
                            @ '' | Last release: '' @ age_str @ [CHR 0x0A]
                            @ ''    '' @ description)))
      | _ \<Rightarrow> Inl AttributeError)"

definition search_params :: "string \<Rightarrow> string option \<Rightarrow> (string \<times> json) list" where
  \<comment> \<open>\<open>params\<close>: the query, and the platform when a language is given\<close>
  "search_params query language =
     [(''q'', JStr query)]
     @ (case language of
          None \<Rightarrow> []
        | Some l \<Rightarrow> if l \<noteq> [] then [(''platforms'', JStr l)] else [])"

definition find_alternatives :: "env \<Rightarrow> string \<Rightarrow> string option \<Rightarrow> py_error + string" where
  "find_alternatives e package_name language =
     (let data = api_get e ''search'' (search_params package_name language)
      in if is_error data then
           (case data of
              JObj d \<Rightarrow> Inr (''Error: '' @ fstr e (dict_get d ''error'' JNull))
            | _ \<Rightarrow> Inl TypeError)
         else if \<not> truthy data then
           Inr (''No alternatives found for '' @ [CHR 0x27] @ package_name @ [CHR 0x27] @ ''.'')
         else
           (case alternatives package_name data of
              Inl err \<Rightarrow> Inl err
            | Inr alts \<Rightarrow>
                (case map_err (alt_block e) (take 6 alts) of
                   Inl err \<Rightarrow> Inl err
                 | Inr blocks \<Rightarrow>
                     Inr (join [CHR 0x0A]
                            ((''Alternatives to '' @ [CHR 0x27] @ package_name @ [CHR 0x27]
                              @ '':'' @ [CHR 0x0A]) # blocks)))))"

text \<open>
  A search result as the registry sends it: a list of records, each with a text for its
  name and its description and a number for its stars, where it has them.
\<close>

definition registry_record :: "json \<Rightarrow> bool" where
  "registry_record p =
     (case p of
        JObj d \<Rightarrow>
          (case dict_get d ''name'' (JStr []) of JStr n \<Rightarrow> True | _ \<Rightarrow> False) \<and>
          (case as_int (dict_get d ''stars'' (JInt 0)) of Inr k \<Rightarrow> True | Inl err \<Rightarrow> False) \<and>
          (case dict_get d ''description'' (JStr []) of JStr s \<Rightarrow> True | _ \<Rightarrow> False)
      | _ \<Rightarrow> False)"

section \<open>Snapshots and comparison (tools/combined.py)\<close>

definition is_word_char :: "char \<Rightarrow> bool" where
  \<comment> \<open>\<open>\w\<close> on ASCII text\<close>
  "is_word_char c =
     (let n = of_char c :: nat in
      (48 \<le> n \<and> n \<le> 57) \<or> (65 \<le> n \<and> n \<le> 90) \<or> (97 \<le> n \<and> n \<le> 122) \<or> n = 95)"

definition is_slug_char :: "char \<Rightarrow> bool" where
  \<comment> \<open>the class \<open>[\w.-]\<close>\<close>
  "is_slug_char c = (is_word_char c \<or> c = CHR ''.'' \<or> c = CHR ''-'')"

definition is_repo :: "string \<Rightarrow> bool" where
  \<comment> \<open>\<open>_is_repo\<close>: the pattern asks for one slash between two non-empty runs of the class\<close>
  "is_repo name0 =
     (let name = strip name0 in
      if contains name ''github.com'' then True
      else (case partition name ''/'' of
              None \<Rightarrow> False
            | Some (owner, repo) \<Rightarrow>
                owner \<noteq> [] \<and> repo \<noteq> [] \<and> list_all is_slug_char owner \<and> list_all is_slug_char repo))"

definition guess_platform :: "env \<Rightarrow> string \<Rightarrow> py_error + string" where
  \<comment> \<open>\<open>_guess_platform\<close>\<close>
  "guess_platform e name =
     (let data = api_get e ''search'' [(''q'', JStr name), (''per_page'', JInt 1)] in
      case data of
        JArr ps \<Rightarrow>
          (case ps of
             [] \<Rightarrow> Inr ''npm''
           | p # rest \<Rightarrow>
               (case p of
                  JObj d \<Rightarrow>
                    (case dict_get d ''platform'' (JStr ''npm'') of
                       JStr s \<Rightarrow> Inr (lower s)
                     | _ \<Rightarrow> Inl AttributeError)
                | _ \<Rightarrow> Inl AttributeError))
      | JStr s \<Rightarrow> if s = [] then Inr ''npm'' else Inl AttributeError
      | JInt n \<Rightarrow> if n = 0 then Inr ''npm'' else Inl TypeError
      | JBool b \<Rightarrow> if b then Inl TypeError else Inr ''npm''
      | _ \<Rightarrow> Inr ''npm'')"

definition package_snapshot :: "env \<Rightarrow> string \<Rightarrow> string \<Rightarrow> py_error + (string \<times> json) list" where
  \<comment> \<open>\<open>_package_snapshot\<close>\<close>
  "package_snapshot e name platform =
     (let data = api_get e (platform @ ''/'' @ name) [] in
      if \<not> truthy data \<or> is_error data then
        Inr [(''error'', JStr (''Could not find '' @ [CHR 0x27] @ name @ [CHR 0x27] @ '' on '' @ platform))]
      else
        (case data of
           JObj d \<Rightarrow>
             Inr [(''name'', dict_get d ''name'' (JStr name)),
                  (''platform'', JStr platform),
                  (''description'', dict_get d ''description'' (JStr ''N/A'')),
                  (''stars'', dict_get d ''stars'' (JInt 0)),
                  (''forks'', dict_get d ''forks'' (JInt 0)),
                  (''open_issues'', dict_get d ''open_issues'' (JInt 0)),
                  (''contributors'', dict_get d ''contributions_count'' (JInt 0)),
                  (''latest_version'', dict_get d ''latest_release_number'' (JStr ''N/A'')),
                  (''months_since_release'',
                     (case months_since e (dict_get d ''latest_release_published_at'' (JStr [])) of
                        None \<Rightarrow> JNull
                      | Some m \<Rightarrow> JInt m)),
                  (''deprecated'', dict_get d ''deprecated'' (JBool False)),
                  (''homepage'', dict_get d ''homepage'' (JStr ''N/A''))]
         | _ \<Rightarrow> Inl AttributeError))"

function split_str :: "string \<Rightarrow> string \<Rightarrow> string list" where
  \<comment> \<open>\<open>s.split(sep)\<close>; an empty separator is refused by Python and splits nothing here\<close>
  "split_str s sep =
     (if sep = [] then [s]
      else (case partition s sep of
              None \<Rightarrow> [s]
            | Some (pre, post) \<Rightarrow> pre # split_str post sep))"
  by pat_completeness auto
termination
proof (relation "measure (\<lambda>(s, sep). length s)")
  show "wf (measure (\<lambda>(s, sep). length s))" by simp
next
  fix s sep :: string and x2 pre post
  assume ne: "sep \<noteq> []" and p: "partition s sep = Some x2" and x: "(pre, post) = x2"
  have shorter: "partition t sep = Some (a, b) \<Longrightarrow> length b < length t" for t a b
  proof (induction t arbitrary: a)
    case Nil
    with ne show ?case by simp
  next
    case (Cons c cs)
    show ?case
    proof (cases "startswith (c # cs) sep")
      case True
      with Cons.prems have "b = drop (length sep) (c # cs)" by simp
      with ne show ?thesis by (cases sep) simp_all
    next
      case False
      with Cons.prems obtain a' where "partition cs sep = Some (a', b)"
        by (auto split: option.splits)
      from Cons.IH [OF this] show ?thesis by simp
    qed
  qed
  from p x have "partition s sep = Some (pre, post)" by simp
  from shorter [OF this] show "((post, sep), (s, sep)) \<in> measure (\<lambda>(s, sep). length s)" by simp
qed

declare split_str.simps [simp del]

definition repo_snapshot :: "env \<Rightarrow> string \<Rightarrow> py_error + (string \<times> json) list" where
  \<comment> \<open>\<open>_repo_snapshot\<close>\<close>
  "repo_snapshot e repo0 =
     (let repo1 = strip repo0;
          repo = (if contains repo1 ''github.com/''
                  then strip_chars ''/'' (last (split_str repo1 ''github.com/''))
                  else repo1)
      in case get_repo_info e repo of
           Inl err \<Rightarrow> Inl err
         | Inr data \<Rightarrow>
             if has_key data ''error'' then Inr [(''error'', dict_get data ''error'' JNull)]
             else
               Inr [(''name'', dict_get data ''name'' (JStr repo)),
                    (''platform'', JStr ''github''),
                    (''description'', dict_get data ''description'' (JStr ''N/A'')),
                    (''stars'', dict_get data ''stars'' (JInt 0)),
                    (''forks'', dict_get data ''forks'' (JInt 0)),
                    (''open_issues'', dict_get data ''open_issues'' (JInt 0)),
                    (''language'', dict_get data ''language'' (JStr ''N/A'')),
                    (''license'', dict_get data ''license'' (JStr ''N/A'')),
                    (''topics'', dict_get data ''topics'' (JArr []))])"

definition bind :: "py_error + 'a \<Rightarrow> ('a \<Rightarrow> py_error + 'b) \<Rightarrow> py_error + 'b" where
  \<comment> \<open>sequencing: an exception of the first step skips the rest\<close>
  "bind m f = (case m of Inl err \<Rightarrow> Inl err | Inr x \<Rightarrow> f x)"

definition fmt_number :: "json \<Rightarrow> py_error + string" where
  \<comment> \<open>\<open>f"{v:,}"\<close>\<close>
  "fmt_number v = bind (as_int v) (\<lambda>n. Inr (format_commas n))"

definition join_topics :: "json \<Rightarrow> py_error + string" where
  \<comment> \<open>\<open>', '.join(topics)\<close> for a truthy \<open>topics\<close>: every item must be a string\<close>
  "join_topics topics =
     bind (iter_values topics)
       (\<lambda>items. bind (map_err (\<lambda>t. case t of JStr s \<Rightarrow> Inr s | _ \<Rightarrow> Inl TypeError) items)
          (\<lambda>texts. Inr (join '', '' texts)))"

definition format_snapshot :: "env \<Rightarrow> (string \<times> json) list \<Rightarrow> py_error + string" where
  \<comment> \<open>\<open>_format_snapshot\<close>\<close>
  "format_snapshot e snap =
     (if has_key snap ''error'' then Inr (''Error: '' @ fstr e (dict_get snap ''error'' JNull))
      else
        (case map_of snap ''name'' of
           None \<Rightarrow> Inl KeyError
         | Some name \<Rightarrow>
             bind (fmt_number (dict_get snap ''stars'' (JInt 0))) (\<lambda>stars.
             bind (fmt_number (dict_get snap ''forks'' (JInt 0))) (\<lambda>forks.
             bind (fmt_number (dict_get snap ''open_issues'' (JInt 0))) (\<lambda>open_issues.
             bind
               (if dict_get snap ''platform'' JNull = JStr ''github'' then
                  bind
                    (if truthy (dict_get snap ''topics'' (JArr []))
                     then bind (join_topics (dict_get snap ''topics'' (JArr [])))
                            (\<lambda>t. Inr [''  Topics      : '' @ t])
                     else Inr [])
                    (\<lambda>topics.
                       Inr ([''  Language    : '' @ fstr e (dict_get snap ''language'' (JStr ''N/A'')),
                             ''  License     : '' @ fstr e (dict_get snap ''license'' (JStr ''N/A''))]
                            @ topics))
                else
                  bind (fmt_number (dict_get snap ''contributors'' (JInt 0))) (\<lambda>contributors.
                  bind
                    (case dict_get snap ''months_since_release'' JNull of
                       JNull \<Rightarrow> Inr []
                     | months \<Rightarrow>
                         bind (as_int months)
                           (\<lambda>m. Inr [''  Maintenance : ''
                                      @ (if m < 12 then ''Active''
                                         else ''No release in '' @ fstr e months @ '' months'')]))
                    (\<lambda>maintenance.
                       Inr ([''  Contributors: '' @ contributors,
                             ''  Latest ver  : '' @ fstr e (dict_get snap ''latest_version'' (JStr ''N/A''))]
                            @ maintenance
                            @ (if truthy (dict_get snap ''deprecated'' JNull)
                               then [''  Status      : DEPRECATED''] else [])
                            @ [''  Homepage    : '' @ fstr e (dict_get snap ''homepage'' (JStr ''N/A''))]))))
               (\<lambda>rest.
                  Inr (join [CHR 0x0A]
                         ([fstr e name @ '' ('' @ fstr e (dict_get snap ''platform'' (JStr ''?'')) @ '')'',
                           ''  Description : '' @ fstr e (dict_get snap ''description'' (JStr ''N/A'')),
                           ''  Stars       : '' @ stars,
                           ''  Forks       : '' @ forks,
                           ''  Open issues : '' @ open_issues]
                          @ rest))))))))"

definition resolve_auto ::
  "env \<Rightarrow> string \<Rightarrow> string
     \<Rightarrow> py_error + ((string \<times> json) list \<times> (string \<times> json) list \<times> string)" where
  \<comment> \<open>the branches of the first statement of \<open>compare\<close> without a platform\<close>
  "resolve_auto e item1 item2 =
     (if is_repo item1 \<and> is_repo item2 then
        bind (repo_snapshot e item1) (\<lambda>snap1.
        bind (repo_snapshot e item2) (\<lambda>snap2.
        Inr (snap1, snap2, ''repo'')))
      else if \<not> is_repo item1 \<and> \<not> is_repo item2 then
        bind (guess_platform e item1) (\<lambda>p1.
        bind (package_snapshot e item1 p1) (\<lambda>snap1.
        bind (guess_platform e item2) (\<lambda>p2.
        bind (package_snapshot e item2 p2) (\<lambda>snap2.
        Inr (snap1, snap2, ''package'')))))
      else
        bind (if is_repo item1 then repo_snapshot e item1
              else bind (guess_platform e item1) (package_snapshot e item1)) (\<lambda>snap1.
        bind (if is_repo item2 then repo_snapshot e item2
              else bind (guess_platform e item2) (package_snapshot e item2)) (\<lambda>snap2.
        Inr (snap1, snap2, ''mixed''))))"

definition resolve ::
  "env \<Rightarrow> string \<Rightarrow> string \<Rightarrow> string option
     \<Rightarrow> py_error + ((string \<times> json) list \<times> (string \<times> json) list \<times> string)" where
  \<comment> \<open>the first statement of \<open>compare\<close>: the two snapshots and the mode\<close>
  "resolve e item1 item2 platform =
     (case platform of
        None \<Rightarrow> resolve_auto e item1 item2
      | Some p \<Rightarrow>
          if p \<noteq> [] then
            bind (package_snapshot e item1 p) (\<lambda>snap1.
            bind (package_snapshot e item2 p) (\<lambda>snap2.
            Inr (snap1, snap2, ''package'')))
          else resolve_auto e item1 item2)"

definition verdicts ::
  "string \<Rightarrow> string \<Rightarrow> (string \<times> json) list \<Rightarrow> (string \<times> json) list \<Rightarrow> string
     \<Rightarrow> py_error + string list" where
  \<comment> \<open>what the last \<open>if\<close> of \<open>compare\<close> appends to \<open>out\<close>. It runs after both snapshots
      were formatted, so the stars it compares are numbers.\<close>
  "verdicts item1 item2 snap1 snap2 mode =
     (if \<not> has_key snap1 ''error'' \<and> \<not> has_key snap2 ''error'' then
        bind (as_int (dict_get snap1 ''stars'' (JInt 0))) (\<lambda>stars1.
        bind (as_int (dict_get snap2 ''stars'' (JInt 0))) (\<lambda>stars2.
        bind
          (if mode = ''package'' then
             (let m1 = dict_get snap1 ''months_since_release'' JNull;
                  m2 = dict_get snap2 ''months_since_release'' JNull
              in if m1 \<noteq> JNull \<and> m2 \<noteq> JNull then
                   bind (as_int m1) (\<lambda>a.
                   bind (as_int m2) (\<lambda>b.
                   Inr [''More recently updated: '' @ (if a \<le> b then item1 else item2)]))
                 else Inr [])
           else Inr [])
          (\<lambda>recency.
             Inr ((''More popular        : '' @ (if stars1 \<ge> stars2 then item1 else item2))
                  # recency))))
      else Inr [])"

definition compare_lines :: "env \<Rightarrow> string \<Rightarrow> string \<Rightarrow> string option \<Rightarrow> py_error + string list" where
  \<comment> \<open>the list \<open>out\<close> of \<open>compare\<close>\<close>
  "compare_lines e item1 item2 platform =
     bind (resolve e item1 item2 platform) (\<lambda>(snap1, snap2, mode).
     bind (format_snapshot e snap1) (\<lambda>block1.
     bind (format_snapshot e snap2) (\<lambda>block2.
     bind (verdicts item1 item2 snap1 snap2 mode) (\<lambda>appended.
     Inr ([''Comparing: '' @ item1 @ '' vs '' @ item2 @ [CHR 0x0A] @ replicate 40 (CHR ''=''),
           block1,
           concat (replicate 40 [CHR 0xE2, CHR 0x94, CHR 0x80]),
           block2,
           replicate 40 (CHR ''='')]
          @ appended)))))"

definition compare :: "env \<Rightarrow> string \<Rightarrow> string \<Rightarrow> string option \<Rightarrow> py_error + string" where
  "compare e item1 item2 platform =
     bind (compare_lines e item1 item2 platform) (\<lambda>out. Inr (join [CHR 0x0A] out))"

text \<open>
  An item is resolved as a package when a platform is given, and otherwise when it does
  not look like a repository.
\<close>

definition as_package :: "string option \<Rightarrow> string \<Rightarrow> bool" where
  "as_package platform item = ((platform \<noteq> None \<and> platform \<noteq> Some []) \<or> \<not> is_repo item)"

section \<open>A sample world\<close>

text \<open>
  The parameters of \<open>env\<close> at one moment, for the concrete instances below: the registry
  knows four Python packages and answers one search, the hosting site knows the
  repositories acme/app and acme/lib, and the clock reads 2024-06-01T00:00:00 UTC. The
  library functions are given on the texts that occur here only, with the values the
  libraries give there.
\<close>

definition flask_record :: json where
  "flask_record =
     JObj [(''name'', JStr ''Flask''), (''platform'', JStr ''Pypi''), (''stars'', JInt 65000),
           (''latest_release_published_at'', JStr ''2023-11-20T08:00:00.000Z''),
           (''deprecated'', JBool False), (''contributions_count'', JInt 5),
           (''description'', JStr ''A micro web framework'')]"

definition leftpad_record :: json where
  "leftpad_record =
     JObj [(''name'', JStr ''leftpad''), (''platform'', JStr ''Pypi''), (''stars'', JInt 12),
           (''latest_release_published_at'', JStr ''2023-11-20T08:00:00.000Z''),
           (''deprecated'', JBool True), (''contributions_count'', JInt 7),
           (''description'', JStr ''Pads on the left'')]"

definition bottle_record :: json where
  "bottle_record =
     JObj [(''name'', JStr ''bottle''), (''platform'', JStr ''Pypi''), (''stars'', JInt 8000),
           (''latest_release_published_at'', JStr ''2024-02-20T12:00:00.000Z''),
           (''deprecated'', JBool False), (''contributions_count'', JInt 1),
           (''description'', JStr ''A fast micro framework'')]"

definition oldlib_record :: json where
  "oldlib_record =
     JObj [(''name'', JStr ''oldlib''), (''platform'', JStr ''Pypi''), (''stars'', JInt 300),
           (''latest_release_published_at'', JStr ''2022-01-01T00:00:00.000Z''),
           (''deprecated'', JBool False), (''contributions_count'', JInt 9),
           (''description'', JStr ''An old library'')]"

definition quart_record :: json where
  "quart_record =
     JObj [(''name'', JStr ''quart''), (''platform'', JStr ''Pypi''), (''stars'', JInt 2000),
           (''latest_release_published_at'', JStr ''2024-05-30T00:00:00.000Z''),
           (''contributions_count'', JInt 30),
           (''description'', JStr ''An async web framework'')]"

definition sample_bodies :: "(string \<times> json) list" where
  "sample_bodies =
     [(''https://libraries.io/api/pypi/flask'', flask_record),
      (''https://libraries.io/api/pypi/leftpad'', leftpad_record),
      (''https://libraries.io/api/pypi/bottle'', bottle_record),
      (''https://libraries.io/api/pypi/quart'', quart_record),
      (''https://libraries.io/api/search'', JArr [quart_record, flask_record, bottle_record]),
      (''https://api.github.com/repos/acme/app/contents/requirements.txt'',
         JObj [(''encoding'', JStr ''base64''),
               (''content'', JStr ''Zmxhc2s9PTIuMC4xCmxlZnRwYWQ+PTEuMAojIHRvb2xzCnNvbG8K'')]),
      (''https://api.github.com/repos/acme/app/contents/package.json'',
         JObj [(''encoding'', JStr ''none''), (''content'', JStr [])]),
      (''https://api.github.com/repos/acme/lib/contents/requirements.txt'',
         JObj [(''encoding'', JStr ''base64''), (''content'', JStr ''RXJyb3JUcmFja2VyPT0xLjIK'')])]"

definition sample_requests :: "string \<Rightarrow> (string \<times> json) list \<Rightarrow> http" where
  "sample_requests url params =
     (case map_of sample_bodies url of
        Some body \<Rightarrow> Response 200 [] (Inr body)
      | None \<Rightarrow> Response 404 ''Not Found'' (Inr (JObj [(''message'', JStr ''Not Found'')])))"

definition sample_b64decode :: "json \<Rightarrow> py_error + string" where
  "sample_b64decode c =
     (if c = JStr ''Zmxhc2s9PTIuMC4xCmxlZnRwYWQ+PTEuMAojIHRvb2xzCnNvbG8K''
      then Inr (''flask==2.0.1'' @ [CHR 0x0A] @ ''leftpad>=1.0'' @ [CHR 0x0A] @ ''# tools''
                @ [CHR 0x0A] @ ''solo'' @ [CHR 0x0A])
      else if c = JStr ''RXJyb3JUcmFja2VyPT0xLjIK'' then Inr (''ErrorTracker==1.2'' @ [CHR 0x0A])
      else if c = JStr [] then Inr []
      else Inl ValueError)"

definition sample_fromisoformat :: "string \<Rightarrow> datetime option" where
  "sample_fromisoformat =
     map_of
       [(''2023-11-20T08:00:00.000+00:00'', Aware 1700467200000000),
        (''2024-02-20T12:00:00.000+00:00'', Aware 1708430400000000),
        (''2022-01-01T00:00:00.000+00:00'', Aware 1640995200000000),
        (''2024-05-30T00:00:00.000+00:00'', Aware 1717027200000000),
        (''2024-01-15T10:30:00'', Naive 1705314600000000)]"

definition sample_json_loads :: "string \<Rightarrow> json option" where
  \<open>sample_json_loads =
     map_of
       [(''{"dependencies": {"express": "^4.18.2", "lodash": "4.17.21"}, "devDependencies": {"jest": "^29.0.0"}}'',
         JObj [(''dependencies'', JObj [(''express'', JStr ''^4.18.2''), (''lodash'', JStr ''4.17.21'')]),
               (''devDependencies'', JObj [(''jest'', JStr ''^29.0.0'')])])]\<close>

definition sample_py_str :: "json \<Rightarrow> string" where
  "sample_py_str v =
     (case v of
        JNull \<Rightarrow> ''None''
      | JBool b \<Rightarrow> (if b then ''True'' else ''False'')
      | JInt n \<Rightarrow> str_int n
      | JStr s \<Rightarrow> s
      | _ \<Rightarrow> ''...'')"

definition sample_exc_str :: "py_error \<Rightarrow> string" where
  "sample_exc_str err = ''exception''"

definition sample_env :: env where
  "sample_env =
     \<lparr>requests_get = sample_requests,
      json_loads = sample_json_loads,
      b64decode_utf8 = sample_b64decode,
      fromisoformat = sample_fromisoformat,
      now_utc = 1717200000000000,
      py_str = sample_py_str,
      exc_str = sample_exc_str,
      LIBRARIES_IO_KEY = ''key''\<rparr>"

section \<open>Properties of the string operations\<close>


lemma startswith_single: "startswith (c # cs) [d] = (c = d)"
  by (simp add: startswith_def)

lemma replace_single_empty: "replace s [c] [] = filter (\<lambda>x. x \<noteq> c) s"
  by (induction s) (auto simp: startswith_single)

lemma split_ws_unfold_Nil:
  assumes "dropWhile isspace s = []"
  shows "split_ws s = []"
  by (subst split_ws.simps) (simp only: assms list.case)

lemma split_ws_unfold_Cons:
  "dropWhile isspace s = c # cs \<Longrightarrow>
   split_ws s = (c # takeWhile (\<lambda>x. \<not> isspace x) cs) # split_ws (dropWhile (\<lambda>x. \<not> isspace x) cs)"
  by (subst split_ws.simps) (simp only: list.case)

lemma split_ws_Nil: "split_ws s = [] \<longleftrightarrow> (\<forall>c \<in> set s. isspace c)"
proof (cases "dropWhile isspace s")
  case Nil
  then show ?thesis by (simp add: split_ws_unfold_Nil dropWhile_eq_Nil_conv)
next
  case (Cons c cs)
  then have "\<not> (\<forall>c \<in> set s. isspace c)" by (metis dropWhile_eq_Nil_conv list.distinct(1))
  then show ?thesis using Cons by (simp add: split_ws_unfold_Cons)
qed

lemma split_ws_tokens: "w \<in> set (split_ws s) \<Longrightarrow> w \<noteq> [] \<and> (\<forall>c \<in> set w. \<not> isspace c)"
proof (induction s rule: split_ws.induct)
  case (1 s)
  show ?case
  proof (cases "dropWhile isspace s")
    case Nil
    with "1.prems" show ?thesis by (subst (asm) split_ws.simps) simp
  next
    case (Cons c cs)
    have c: "\<not> isspace c" using Cons by (metis hd_dropWhile list.sel(1) list.distinct(1))
    from "1.prems" Cons have "w = c # takeWhile (\<lambda>x. \<not> isspace x) cs \<or> w \<in> set (split_ws (dropWhile (\<lambda>x. \<not> isspace x) cs))"
      by (subst (asm) split_ws.simps) simp
    then show ?thesis
    proof
      assume "w = c # takeWhile (\<lambda>x. \<not> isspace x) cs"
      then show ?thesis using c by (auto dest: set_takeWhileD)
    next
      assume "w \<in> set (split_ws (dropWhile (\<lambda>x. \<not> isspace x) cs))"
      then show ?thesis using "1.IH" Cons by blast
    qed
  qed
qed

lemma concat_split_ws: "concat (split_ws s) = filter (\<lambda>c. \<not> isspace c) s"
proof (induction s rule: split_ws.induct)
  case (1 s)
  show ?case
  proof (cases "dropWhile isspace s")
    case Nil
    then have "\<forall>c \<in> set s. isspace c" by (simp add: dropWhile_eq_Nil_conv)
    then have "filter (\<lambda>c. \<not> isspace c) s = []" by (simp add: filter_empty_conv)
    with Nil show ?thesis by (simp add: split_ws_unfold_Nil)
  next
    case (Cons c cs)
    have c: "\<not> isspace c" using Cons by (metis hd_dropWhile list.sel(1) list.distinct(1))
    have s: "s = takeWhile isspace s @ c # cs" using Cons by (metis takeWhile_dropWhile_id)
    have f1: "filter (\<lambda>c. \<not> isspace c) (takeWhile isspace s) = []"
      by (auto simp: filter_empty_conv dest: set_takeWhileD)
    have cs: "cs = takeWhile (\<lambda>x. \<not> isspace x) cs @ dropWhile (\<lambda>x. \<not> isspace x) cs" by simp
    have f2: "filter (\<lambda>c. \<not> isspace c) (takeWhile (\<lambda>x. \<not> isspace x) cs) = takeWhile (\<lambda>x. \<not> isspace x) cs"
      by (auto simp: filter_id_conv dest: set_takeWhileD)
    have "filter (\<lambda>c. \<not> isspace c) s = c # filter (\<lambda>c. \<not> isspace c) cs"
      by (subst s) (simp add: f1 c)
    also have "filter (\<lambda>c. \<not> isspace c) cs = takeWhile (\<lambda>x. \<not> isspace x) cs @ filter (\<lambda>c. \<not> isspace c) (dropWhile (\<lambda>x. \<not> isspace x) cs)"
      by (subst cs) (simp only: filter_append f2)
    finally show ?thesis using "1.IH" [OF Cons] Cons
      by (simp add: split_ws_unfold_Cons)
  qed
qed

lemma search_keywords_spec: "search_keywords question = spec_tokens question"
proof -
  have "replace (replace (lower question) ''?'' []) '','' [] =
        filter (\<lambda>c. c \<noteq> CHR ''?'' \<and> c \<noteq> CHR '','') (lower question)"
    by (simp add: replace_single_empty conj_commute)
  moreover have "(\<lambda>w::string. w \<notin> set stopwords \<and> length w > 2) = (\<lambda>w. w \<notin> set stopwords \<and> \<not> length w < 3)"
    by (rule ext) auto
  ultimately show ?thesis
    by (simp add: search_keywords_def search_words_def spec_tokens_def)
qed

lemma join_nonempty: "xs \<noteq> [] \<Longrightarrow> hd xs \<noteq> [] \<Longrightarrow> join sep xs \<noteq> []"
  by (induction sep xs rule: join.induct) auto

lemma isspace_lower_char: "isspace c \<Longrightarrow> lower_char c = c"
  by (auto simp: isspace_def lower_char_def Let_def)

text \<open>
  Claim C3. \<open>extract_search_term\<close> lowercases the question, removes every question mark
  and comma, splits on whitespace, drops the stopwords and the tokens shorter than 3
  characters, and returns the first 3 surviving tokens joined by single spaces; when no
  token survives it returns the first whitespace-delimited token of the question as it was
  written. For "How does authentication work in this repo?" the result is
  "authentication".
\<close>

theorem extract_search_term_spec:
  "(spec_tokens question \<noteq> [] \<longrightarrow>
      extract_search_term question = Inr (join '' '' (take 3 (spec_tokens question)))) \<and>
   (spec_tokens question = [] \<longrightarrow>
      (\<forall>w ws. split_ws question = w # ws \<longrightarrow> extract_search_term question = Inr w)) \<and>
   extract_search_term ''How does authentication work in this repo?'' = Inr ''authentication''"
proof (intro conjI impI allI)
  assume "spec_tokens question \<noteq> []"
  then show "extract_search_term question = Inr (join '' '' (take 3 (spec_tokens question)))"
    by (simp add: extract_search_term_def search_keywords_spec)
next
  fix w ws
  assume "spec_tokens question = []" and "split_ws question = w # ws"
  then show "extract_search_term question = Inr w"
    by (simp add: extract_search_term_def search_keywords_spec)
next
  show "extract_search_term ''How does authentication work in this repo?'' = Inr ''authentication''"
    by code_simp
qed

theorem extract_search_term_spec_witness:
  "spec_tokens ''Where is the JWT token, parser used in this repo?'' \<noteq> [] \<and>
   extract_search_term ''Where is the JWT token, parser used in this repo?'' = Inr ''jwt token parser'' \<and>
   spec_tokens ''What is this?'' = [] \<and>
   split_ws ''What is this?'' = [''What'', ''is'', ''this?''] \<and>
   extract_search_term ''What is this?'' = Inr ''What''"
proof -
  let ?q1 = "''Where is the JWT token, parser used in this repo?''"
  let ?q2 = "''What is this?''"
  have t1: "spec_tokens ?q1 \<noteq> []" by code_simp
  have j1: "join '' '' (take 3 (spec_tokens ?q1)) = ''jwt token parser''" by code_simp
  have t2: "spec_tokens ?q2 = []" by code_simp
  have s2: "split_ws ?q2 = [''What'', ''is'', ''this?'']" by code_simp
  from extract_search_term_spec [of ?q1] t1 j1
  have r1: "extract_search_term ?q1 = Inr ''jwt token parser''" by simp
  from extract_search_term_spec [of ?q2] t2 s2
  have r2: "extract_search_term ?q2 = Inr ''What''" by blast
  from t1 r1 t2 s2 r2 show ?thesis by blast
qed

text \<open>
  Claim C9. On a question with at least one character that is not whitespace,
  \<open>extract_search_term\<close> returns a non-empty string; on an empty or all-whitespace
  question the fallback indexes an empty token list and the call raises \<open>IndexError\<close>.
\<close>

theorem extract_search_term_returns:
  "((\<exists>c \<in> set question. \<not> isspace c) \<longrightarrow>
      (\<exists>r. extract_search_term question = Inr r \<and> r \<noteq> [])) \<and>
   ((\<forall>c \<in> set question. isspace c) \<longrightarrow> extract_search_term question = Inl IndexError)"
proof (intro conjI impI)
  assume "\<exists>c \<in> set question. \<not> isspace c"
  then have ne: "split_ws question \<noteq> []" by (simp add: split_ws_Nil)
  show "\<exists>r. extract_search_term question = Inr r \<and> r \<noteq> []"
  proof (cases "search_keywords question = []")
    case True
    from ne obtain w ws where w: "split_ws question = w # ws" by (cases "split_ws question") auto
    then have "w \<noteq> []" using split_ws_tokens [of w question] by simp
    with True w show ?thesis by (simp add: extract_search_term_def)
  next
    case False
    then obtain k ks where k: "search_keywords question = k # ks"
      by (cases "search_keywords question") auto
    then have "k \<in> set (search_keywords question)" by simp
    then have "length k > 2" by (simp add: search_keywords_def)
    then have "hd (take 3 (search_keywords question)) \<noteq> []" using k by auto
    moreover have "take 3 (search_keywords question) \<noteq> []" using k by simp
    ultimately have "join '' '' (take 3 (search_keywords question)) \<noteq> []"
      by (rule join_nonempty [rotated])
    with False show ?thesis by (simp add: extract_search_term_def)
  qed
next
  assume all: "\<forall>c \<in> set question. isspace c"
  then have q: "split_ws question = []" by (simp add: split_ws_Nil)
  have "lower question = question"
    using all by (simp add: lower_def isspace_lower_char map_idI)
  then have "\<forall>c \<in> set (filter (\<lambda>c. c \<noteq> CHR ''?'' \<and> c \<noteq> CHR '','') (lower question)). isspace c"
    using all by simp
  then have "split_ws (filter (\<lambda>c. c \<noteq> CHR ''?'' \<and> c \<noteq> CHR '','') (lower question)) = []"
    by (simp only: split_ws_Nil)
  then have "spec_tokens question = []"
    by (simp add: spec_tokens_def)
  with q show "extract_search_term question = Inl IndexError"
    by (simp add: extract_search_term_def search_keywords_spec)
qed

theorem extract_search_term_returns_witness:
  "(\<exists>c \<in> set ''is it?''. \<not> isspace c) \<and>
   (\<exists>r. extract_search_term ''is it?'' = Inr r \<and> r \<noteq> []) \<and>
   list_all isspace [CHR 0x20, CHR 0x09] \<and>
   extract_search_term [CHR 0x20, CHR 0x09] = Inl IndexError"
proof -
  have h1: "\<exists>c \<in> set ''is it?''. \<not> isspace c" by (simp add: isspace_def)
  have h2: "\<forall>c \<in> set [CHR 0x20, CHR 0x09]. isspace c" by (simp add: isspace_def)
  from extract_search_term_returns [of "''is it?''"] h1
  have r1: "\<exists>r. extract_search_term ''is it?'' = Inr r \<and> r \<noteq> []" by blast
  from extract_search_term_returns [of "[CHR 0x20, CHR 0x09]"] h2
  have r2: "extract_search_term [CHR 0x20, CHR 0x09] = Inl IndexError" by blast
  from h2 have h3: "list_all isspace [CHR 0x20, CHR 0x09]" by (simp only: list_all_iff)
  from h1 r1 h3 r2 show ?thesis by blast
qed

section \<open>Properties of the manifest parser\<close>

lemma startswith_prefix: "startswith s p = prefix p s"
  by (auto simp: startswith_def prefix_def take_is_prefix
      intro: exI [of _ "drop (length p) s"]) (metis append_take_drop_id)

lemma partition_None: "partition s sep = None \<Longrightarrow> \<not> sublist sep s"
proof (induction s)
  case Nil
  then show ?case by (auto split: if_splits)
next
  case (Cons c cs)
  then show ?case
    by (auto simp: sublist_Cons_right startswith_prefix split: if_splits option.splits)
qed

lemma partition_Some:
  "partition s sep = Some (a, b) \<Longrightarrow> sep \<noteq> [] \<Longrightarrow>
   s = a @ sep @ b \<and> \<not> sublist sep (a @ butlast sep)"
proof (induction s arbitrary: a)
  case Nil
  then show ?case by (auto split: if_splits)
next
  case (Cons c cs)
  show ?case
  proof (cases "startswith (c # cs) sep")
    case True
    with Cons.prems have a: "a = []" and b: "b = drop (length sep) (c # cs)" by auto
    from True have "c # cs = sep @ b"
      unfolding b startswith_def by (metis append_take_drop_id)
    moreover have "\<not> sublist sep (butlast sep)"
      using Cons.prems(2) by (metis sublist_length_le length_butlast diff_less length_greater_0_conv
          less_numeral_extra(1) not_less)
    ultimately show ?thesis using a by simp
  next
    case False
    with Cons.prems obtain a' where p: "partition cs sep = Some (a', b)" and a: "a = c # a'"
      by (auto split: option.splits)
    from Cons.IH [OF p Cons.prems(2)]
    have cs: "cs = a' @ sep @ b" and ns: "\<not> sublist sep (a' @ butlast sep)" by auto
    have "\<not> prefix sep (c # a' @ butlast sep)"
    proof
      assume "prefix sep (c # a' @ butlast sep)"
      moreover have "prefix (c # a' @ butlast sep) (c # cs)"
        unfolding cs using Cons.prems(2)
        by (metis append_butlast_last_id append.assoc prefix_def Cons_prefix_Cons same_prefix_prefix)
      ultimately have "prefix sep (c # cs)" by (rule prefix_order.trans)
      with False show False by (simp add: startswith_prefix)
    qed
    with ns have "\<not> sublist sep (c # a' @ butlast sep)"
      by (simp add: sublist_Cons_right)
    with cs a show ?thesis by simp
  qed
qed

lemma contains_sublist: "contains s sub = sublist sub s"
proof (cases "partition s sub")
  case None
  then show ?thesis using partition_None by (simp add: contains_def)
next
  case (Some ab)
  obtain a b where ab: "ab = (a, b)" by (cases ab)
  show ?thesis
  proof (cases "sub = []")
    case True
    then show ?thesis using Some by (simp add: contains_def)
  next
    case False
    from partition_Some [OF Some [unfolded ab] False]
    have "s = a @ sub @ b" by simp
    then have "sublist sub s" by (auto simp: sublist_def)
    then show ?thesis using Some by (simp add: contains_def)
  qed
qed

lemma partition_None_iff: "partition s sub = None \<longleftrightarrow> \<not> sublist sub s"
  by (metis contains_def contains_sublist)

lemma strip_ends:
  assumes "strip s \<noteq> []"
  shows "\<not> isspace (hd (strip s))" and "\<not> isspace (last (strip s))"
proof -
  let ?d = "dropWhile isspace s"
  let ?u = "dropWhile isspace (rev ?d)"
  have t: "strip s = rev ?u" by (simp add: strip_def)
  with assms have u: "?u \<noteq> []" by simp
  then have "\<not> isspace (hd ?u)" by (rule hd_dropWhile)
  then show "\<not> isspace (last (strip s))" using u by (simp add: t last_rev)
  have "rev ?d = takeWhile isspace (rev ?d) @ ?u" by simp
  then have "?d = rev ?u @ rev (takeWhile isspace (rev ?d))"
    by (metis rev_append rev_rev_ident)
  then have d: "?d = strip s @ rev (takeWhile isspace (rev ?d))" by (simp add: t)
  have "?d \<noteq> []" using d assms by (metis append_is_Nil_conv)
  then have "\<not> isspace (hd ?d)" by (rule hd_dropWhile)
  moreover have "hd ?d = hd (strip s)" using d assms by (metis hd_append2)
  ultimately show "\<not> isspace (hd (strip s))" by simp
qed

lemma strip_strip: "strip (strip s) = strip s"
proof (cases "strip s = []")
  case True
  have "strip [] = []" by (simp add: strip_def)
  with True show ?thesis by simp
next
  case False
  from strip_ends [OF False]
  have h: "\<not> isspace (hd (strip s))" and l: "\<not> isspace (last (strip s))" by auto
  from h False have 1: "dropWhile isspace (strip s) = strip s"
    by (cases "strip s") auto
  from l False have 2: "dropWhile isspace (rev (strip s)) = rev (strip s)"
    by (cases "rev (strip s)") (auto simp: last_rev [symmetric] hd_rev)
  show ?thesis
    by (subst (1) strip_def) (simp only: 1 2 rev_rev_ident)
qed

lemma requirements_line_entry:
  "requirements_line raw =
     Inr (if strip raw \<noteq> [] \<and> \<not> prefix ''#'' (strip raw) \<and> \<not> prefix ''-'' (strip raw)
          then [requirement_entry (strip raw)] else [])"
  by (auto simp: requirements_line_def requirement_entry_def Let_def startswith_prefix
      contains_def split1_def strip_strip split: option.splits)

lemma requirements_loop_map:
  "requirements_loop raws packages =
     packages @ map requirement_entry
       (filter (\<lambda>l. l \<noteq> [] \<and> \<not> prefix ''#'' l \<and> \<not> prefix ''-'' l) (map strip raws))"
  by (induction raws arbitrary: packages) (simp_all add: requirements_line_entry)

lemma extract_requirements:
  "extract_packages e ''requirements.txt'' content =
     map requirement_entry (requirement_lines content)"
  by (simp add: extract_packages_def requirements_loop_map requirement_lines_def)

lemma requirement_entry_cases:
  "(sublist ''=='' l \<longrightarrow>
      (\<exists>a b. l = a @ ''=='' @ b \<and> \<not> sublist ''=='' (a @ ''='') \<and>
             requirement_entry l = (strip a, JStr (''=='' @ strip b)))) \<and>
   (\<not> sublist ''=='' l \<and> sublist ''>='' l \<longrightarrow>
      (\<exists>a b. l = a @ ''>='' @ b \<and> \<not> sublist ''>='' (a @ ''>'') \<and>
             requirement_entry l = (strip a, JStr (''>='' @ strip b)))) \<and>
   (\<not> sublist ''=='' l \<and> \<not> sublist ''>='' l \<longrightarrow> requirement_entry l = (l, JStr []))"
proof (intro conjI impI)
  assume "sublist ''=='' l"
  then have "partition l ''=='' \<noteq> None" by (simp add: partition_None_iff)
  then obtain a b where p: "partition l ''=='' = Some (a, b)" by auto
  from partition_Some [OF p] have "l = a @ ''=='' @ b" and "\<not> sublist ''=='' (a @ ''='')" by auto
  with p show "\<exists>a b. l = a @ ''=='' @ b \<and> \<not> sublist ''=='' (a @ ''='') \<and>
             requirement_entry l = (strip a, JStr (''=='' @ strip b))"
    by (auto simp: requirement_entry_def)
next
  assume h: "\<not> sublist ''=='' l \<and> sublist ''>='' l"
  then have n: "partition l ''=='' = None" by (simp add: partition_None_iff)
  from h have "partition l ''>='' \<noteq> None" by (simp add: partition_None_iff)
  then obtain a b where p: "partition l ''>='' = Some (a, b)" by auto
  from partition_Some [OF p] have "l = a @ ''>='' @ b" and "\<not> sublist ''>='' (a @ ''>'')" by auto
  with p n show "\<exists>a b. l = a @ ''>='' @ b \<and> \<not> sublist ''>='' (a @ ''>'') \<and>
             requirement_entry l = (strip a, JStr (''>='' @ strip b))"
    by (auto simp: requirement_entry_def)
next
  assume h: "\<not> sublist ''=='' l \<and> \<not> sublist ''>='' l"
  then have "partition l ''=='' = None" and "partition l ''>='' = None"
    by (simp_all add: partition_None_iff)
  then show "requirement_entry l = (l, JStr [])" by (simp add: requirement_entry_def)
qed

lemma partition_not_None: "partition s sub \<noteq> None \<Longrightarrow> sublist sub s"
  by (simp add: partition_None_iff)

text \<open>
  Claim C2. For a requirements.txt, the manifest parser emits one package per line that,
  stripped, is not blank, not a comment (\<open>#\<close>) and not an option (\<open>-\<close>), in the order of
  the lines. The constraint of a package starts with the operator of its line, \<open>==\<close> or
  \<open>>=\<close>, the line being cut at the first occurrence of that operator (\<open>==\<close> where the
  line has both); a line with neither operator is the name, whole, with the empty
  constraint.
\<close>

theorem requirements_entries:
  "length (extract_packages e ''requirements.txt'' content) = length (requirement_lines content) \<and>
   (\<forall>i < length (requirement_lines content).
      (sublist ''=='' (requirement_lines content ! i) \<longrightarrow>
         (\<exists>a b. requirement_lines content ! i = a @ ''=='' @ b \<and> \<not> sublist ''=='' (a @ ''='') \<and>
            extract_packages e ''requirements.txt'' content ! i = (strip a, JStr (''=='' @ strip b)))) \<and>
      (\<not> sublist ''=='' (requirement_lines content ! i) \<and> sublist ''>='' (requirement_lines content ! i) \<longrightarrow>
         (\<exists>a b. requirement_lines content ! i = a @ ''>='' @ b \<and> \<not> sublist ''>='' (a @ ''>'') \<and>
            extract_packages e ''requirements.txt'' content ! i = (strip a, JStr (''>='' @ strip b)))) \<and>
      (\<not> sublist ''=='' (requirement_lines content ! i) \<and> \<not> sublist ''>='' (requirement_lines content ! i) \<longrightarrow>
         extract_packages e ''requirements.txt'' content ! i = (requirement_lines content ! i, JStr [])))"
proof (intro conjI allI impI)
  show "length (extract_packages e ''requirements.txt'' content) = length (requirement_lines content)"
    by (simp add: extract_requirements)
next
  fix i assume i: "i < length (requirement_lines content)"
  then have nth: "extract_packages e ''requirements.txt'' content ! i =
      requirement_entry (requirement_lines content ! i)"
    by (simp add: extract_requirements)
  {
    assume "sublist ''=='' (requirement_lines content ! i)"
    then show "\<exists>a b. requirement_lines content ! i = a @ ''=='' @ b \<and> \<not> sublist ''=='' (a @ ''='') \<and>
            extract_packages e ''requirements.txt'' content ! i = (strip a, JStr (''=='' @ strip b))"
      unfolding nth using requirement_entry_cases [of "requirement_lines content ! i"] by blast
  next
    assume "\<not> sublist ''=='' (requirement_lines content ! i) \<and> sublist ''>='' (requirement_lines content ! i)"
    then show "\<exists>a b. requirement_lines content ! i = a @ ''>='' @ b \<and> \<not> sublist ''>='' (a @ ''>'') \<and>
            extract_packages e ''requirements.txt'' content ! i = (strip a, JStr (''>='' @ strip b))"
      unfolding nth using requirement_entry_cases [of "requirement_lines content ! i"] by blast
  next
    assume "\<not> sublist ''=='' (requirement_lines content ! i) \<and> \<not> sublist ''>='' (requirement_lines content ! i)"
    then show "extract_packages e ''requirements.txt'' content ! i = (requirement_lines content ! i, JStr [])"
      unfolding nth using requirement_entry_cases [of "requirement_lines content ! i"] by blast
  }
qed

theorem requirements_entries_witness:
  "requirement_lines (''flask==2.0.1'' @ [CHR 0x0A] @ ''leftpad >= 1.0'' @ [CHR 0x0A] @ ''# tools''
      @ [CHR 0x0A] @ ''  solo'' @ [CHR 0x0A]) = [''flask==2.0.1'', ''leftpad >= 1.0'', ''solo''] \<and>
   length (extract_packages sample_env ''requirements.txt''
     (''flask==2.0.1'' @ [CHR 0x0A] @ ''leftpad >= 1.0'' @ [CHR 0x0A] @ ''# tools''
      @ [CHR 0x0A] @ ''  solo'' @ [CHR 0x0A])) = 3 \<and>
   extract_packages sample_env ''requirements.txt''
     (''flask==2.0.1'' @ [CHR 0x0A] @ ''leftpad >= 1.0'' @ [CHR 0x0A] @ ''# tools''
      @ [CHR 0x0A] @ ''  solo'' @ [CHR 0x0A]) ! 2 = (''solo'', JStr []) \<and>
   (\<exists>a b. ''leftpad >= 1.0'' = a @ ''>='' @ b \<and> \<not> sublist ''>='' (a @ ''>'') \<and>
      extract_packages sample_env ''requirements.txt''
        (''flask==2.0.1'' @ [CHR 0x0A] @ ''leftpad >= 1.0'' @ [CHR 0x0A] @ ''# tools''
         @ [CHR 0x0A] @ ''  solo'' @ [CHR 0x0A]) ! 1 = (strip a, JStr (''>='' @ strip b))) \<and>
   (\<exists>a b. ''flask==2.0.1'' = a @ ''=='' @ b \<and> \<not> sublist ''=='' (a @ ''='') \<and>
      extract_packages sample_env ''requirements.txt''
        (''flask==2.0.1'' @ [CHR 0x0A] @ ''leftpad >= 1.0'' @ [CHR 0x0A] @ ''# tools''
         @ [CHR 0x0A] @ ''  solo'' @ [CHR 0x0A]) ! 0 = (strip a, JStr (''=='' @ strip b)))"
proof -
  let ?c = "''flask==2.0.1'' @ [CHR 0x0A] @ ''leftpad >= 1.0'' @ [CHR 0x0A] @ ''# tools''
      @ [CHR 0x0A] @ ''  solo'' @ [CHR 0x0A]"
  have rl: "requirement_lines ?c = [''flask==2.0.1'', ''leftpad >= 1.0'', ''solo'']"
    by code_simp
  have p0: "partition ''flask==2.0.1'' ''=='' \<noteq> None" by code_simp
  have p1: "partition ''leftpad >= 1.0'' ''=='' = None" by code_simp
  have p1': "partition ''leftpad >= 1.0'' ''>='' \<noteq> None" by code_simp
  have p2: "partition ''solo'' ''=='' = None" by code_simp
  have p2': "partition ''solo'' ''>='' = None" by code_simp
  note t = requirements_entries [of sample_env ?c, unfolded rl]
  from t have len: "length (extract_packages sample_env ''requirements.txt'' ?c) = 3" by simp
  from t have all: "\<And>i. i < 3 \<Longrightarrow>
      (sublist ''=='' ([''flask==2.0.1'', ''leftpad >= 1.0'', ''solo''] ! i) \<longrightarrow>
         (\<exists>a b. [''flask==2.0.1'', ''leftpad >= 1.0'', ''solo''] ! i = a @ ''=='' @ b \<and> \<not> sublist ''=='' (a @ ''='') \<and>
            extract_packages sample_env ''requirements.txt'' ?c ! i = (strip a, JStr (''=='' @ strip b)))) \<and>
      (\<not> sublist ''=='' ([''flask==2.0.1'', ''leftpad >= 1.0'', ''solo''] ! i) \<and> sublist ''>='' ([''flask==2.0.1'', ''leftpad >= 1.0'', ''solo''] ! i) \<longrightarrow>
         (\<exists>a b. [''flask==2.0.1'', ''leftpad >= 1.0'', ''solo''] ! i = a @ ''>='' @ b \<and> \<not> sublist ''>='' (a @ ''>'') \<and>
            extract_packages sample_env ''requirements.txt'' ?c ! i = (strip a, JStr (''>='' @ strip b)))) \<and>
      (\<not> sublist ''=='' ([''flask==2.0.1'', ''leftpad >= 1.0'', ''solo''] ! i) \<and> \<not> sublist ''>='' ([''flask==2.0.1'', ''leftpad >= 1.0'', ''solo''] ! i) \<longrightarrow>
         extract_packages sample_env ''requirements.txt'' ?c ! i = ([''flask==2.0.1'', ''leftpad >= 1.0'', ''solo''] ! i, JStr []))"
    by simp
  have n: "[''flask==2.0.1'', ''leftpad >= 1.0'', ''solo''] ! 0 = ''flask==2.0.1''"
    "[''flask==2.0.1'', ''leftpad >= 1.0'', ''solo''] ! 1 = ''leftpad >= 1.0''"
    "[''flask==2.0.1'', ''leftpad >= 1.0'', ''solo''] ! 2 = ''solo''"
    by simp_all
  have lt: "(0::nat) < 3" "(1::nat) < 3" "(2::nat) < 3" by simp_all
  note a0 = all [OF lt(1), unfolded n(1)]
  note a1 = all [OF lt(2), unfolded n(2)]
  note a2 = all [OF lt(3), unfolded n(3)]
  have s0: "sublist ''=='' ''flask==2.0.1''"
    by (rule partition_not_None [OF p0])
  have s1: "\<not> sublist ''=='' ''leftpad >= 1.0''"
    by (rule partition_None [OF p1])
  have s1': "sublist ''>='' ''leftpad >= 1.0''"
    by (rule partition_not_None [OF p1'])
  have s2: "\<not> sublist ''=='' ''solo''"
    by (rule partition_None [OF p2])
  have s2': "\<not> sublist ''>='' ''solo''"
    by (rule partition_None [OF p2'])
  have e0: "\<exists>a b. ''flask==2.0.1'' = a @ ''=='' @ b \<and> \<not> sublist ''=='' (a @ ''='') \<and>
      extract_packages sample_env ''requirements.txt'' ?c ! 0 = (strip a, JStr (''=='' @ strip b))"
    using a0 s0 by blast
  have e1: "\<exists>a b. ''leftpad >= 1.0'' = a @ ''>='' @ b \<and> \<not> sublist ''>='' (a @ ''>'') \<and>
      extract_packages sample_env ''requirements.txt'' ?c ! 1 = (strip a, JStr (''>='' @ strip b))"
    using a1 s1 s1' by blast
  have e2: "extract_packages sample_env ''requirements.txt'' ?c ! 2 = (''solo'', JStr [])"
    using a2 s2 s2' by blast
  from rl len e0 e1 e2 show ?thesis by blast
qed

lemma sublist_single: "sublist [c] s \<longleftrightarrow> c \<in> set s"
  by (metis append_Cons append_Nil in_set_conv_decomp sublist_def)

lemma find_None: "find s [c] = None \<longleftrightarrow> c \<notin> set s"
  by (simp add: find_def partition_None_iff sublist_single)

lemma find_first:
  assumes "s = pre @ [c] @ rest" and "c \<notin> set pre"
  shows "find s [c] = Some (length pre)"
proof -
  have "sublist [c] s" using assms(1) by (auto simp: sublist_def)
  then have "partition s [c] \<noteq> None" by (simp add: partition_None_iff)
  then obtain a b where p: "partition s [c] = Some (a, b)" by auto
  from partition_Some [OF p] have s: "s = a @ [c] @ b" and "\<not> sublist [c] a" by auto
  then have a: "c \<notin> set a" by (simp add: sublist_single)
  have tw: "takeWhile (\<lambda>x. x \<noteq> c) (xs @ [c] @ ys) = xs" if "c \<notin> set xs" for xs ys
  proof -
    from that have "\<forall>x \<in> set xs. x \<noteq> c" by auto
    then show ?thesis by (simp add: takeWhile_append2)
  qed
  have "takeWhile (\<lambda>x. x \<noteq> c) s = pre"
    unfolding assms(1) using assms(2) by (rule tw)
  moreover have "takeWhile (\<lambda>x. x \<noteq> c) s = a"
    unfolding s using a by (rule tw)
  ultimately have "a = pre" by simp
  with p show ?thesis by (simp add: find_def)
qed

text \<open>
  Claim C6. For a package.json whose \<open>dependencies\<close> has N keys and whose \<open>devDependencies\<close>
  has M keys, the manifest parser emits N + M packages: the entries of \<open>dependencies\<close> in
  their order, then those of \<open>devDependencies\<close> in theirs. Parsing starts at the first
  brace, so text before it is tolerated; content with no brace gives the empty list.
\<close>

theorem package_json_entries:
  "(CHR ''{'' \<notin> set content \<longrightarrow> extract_packages e ''package.json'' content = []) \<and>
   (\<forall>pre rest d deps devs.
      content = pre @ ''{'' @ rest \<and> CHR ''{'' \<notin> set pre \<and>
      json_loads e (''{'' @ rest) = Some (JObj d) \<and>
      dict_get d ''dependencies'' (JObj []) = JObj deps \<and>
      dict_get d ''devDependencies'' (JObj []) = JObj devs \<longrightarrow>
      extract_packages e ''package.json'' content = deps @ devs \<and>
      length (extract_packages e ''package.json'' content) = length deps + length devs)"
proof (rule conjI; (intro allI)?; rule impI)
  assume "CHR ''{'' \<notin> set content"
  then have "find content ''{'' = None" by (simp add: find_None)
  then show "extract_packages e ''package.json'' content = []"
    by (simp add: extract_packages_def)
next
  fix pre rest d deps devs
  assume h: "content = pre @ ''{'' @ rest \<and> CHR ''{'' \<notin> set pre \<and>
      json_loads e (''{'' @ rest) = Some (JObj d) \<and>
      dict_get d ''dependencies'' (JObj []) = JObj deps \<and>
      dict_get d ''devDependencies'' (JObj []) = JObj devs"
  then have f: "find content ''{'' = Some (length pre)" by (simp add: find_first)
  have "drop (length pre) content = ''{'' @ rest" using h by simp
  with f h have "extract_packages e ''package.json'' content = deps @ devs"
    by (simp add: extract_packages_def)
  then show "extract_packages e ''package.json'' content = deps @ devs \<and>
      length (extract_packages e ''package.json'' content) = length deps + length devs"
    by simp
qed

theorem package_json_entries_witness:
  \<open>extract_packages sample_env ''package.json''
     (''// manifest '' @ ''{"dependencies": {"express": "^4.18.2", "lodash": "4.17.21"}, "devDependencies": {"jest": "^29.0.0"}}'')
     = [(''express'', JStr ''^4.18.2''), (''lodash'', JStr ''4.17.21'')] @ [(''jest'', JStr ''^29.0.0'')] \<and>
   length (extract_packages sample_env ''package.json''
     (''// manifest '' @ ''{"dependencies": {"express": "^4.18.2", "lodash": "4.17.21"}, "devDependencies": {"jest": "^29.0.0"}}''))
     = 2 + 1 \<and>
   CHR ''{'' \<notin> set ''name = app'' \<and>
   extract_packages sample_env ''package.json'' ''name = app'' = []\<close>
proof -
  let ?pre = "''// manifest ''"
  let ?rest = \<open>''"dependencies": {"express": "^4.18.2", "lodash": "4.17.21"}, "devDependencies": {"jest": "^29.0.0"}}''\<close>
  let ?d = "[(''dependencies'', JObj [(''express'', JStr ''^4.18.2''), (''lodash'', JStr ''4.17.21'')]),
               (''devDependencies'', JObj [(''jest'', JStr ''^29.0.0'')])]"
  let ?deps = "[(''express'', JStr ''^4.18.2''), (''lodash'', JStr ''4.17.21'')]"
  let ?devs = "[(''jest'', JStr ''^29.0.0'')]"
  have h1: "?pre @ ''{'' @ ?rest = ?pre @ ''{'' @ ?rest" by (rule refl)
  have h2: "CHR ''{'' \<notin> set ?pre" by simp
  have h3: "json_loads sample_env (''{'' @ ?rest) = Some (JObj ?d)"
    by (simp add: sample_env_def sample_json_loads_def)
  have h4: "dict_get ?d ''dependencies'' (JObj []) = JObj ?deps" by (simp add: dict_get_def)
  have h5: "dict_get ?d ''devDependencies'' (JObj []) = JObj ?devs" by (simp add: dict_get_def)
  from package_json_entries [of "?pre @ ''{'' @ ?rest" sample_env] h1 h2 h3 h4 h5
  have r: "extract_packages sample_env ''package.json'' (?pre @ ''{'' @ ?rest) = ?deps @ ?devs \<and>
      length (extract_packages sample_env ''package.json'' (?pre @ ''{'' @ ?rest)) = length ?deps + length ?devs"
    by blast
  have n: "CHR ''{'' \<notin> set ''name = app''" by simp
  with package_json_entries [of "''name = app''" sample_env]
  have z: "extract_packages sample_env ''package.json'' ''name = app'' = []" by blast
  from r n z show ?thesis by simp
qed

section \<open>Properties of the registry client\<close>

lemma int_div30_sdiv: "int_div30 d = d sdiv 30"
  by (simp add: int_div30_def signed_divide_int_def sgn_if)

lemma int_div30_mono: "a \<le> b \<Longrightarrow> int_div30 a \<le> int_div30 b"
  unfolding int_div30_def
  by (auto simp: zdiv_mono1 intro: order_trans [of _ 0])

lemma timedelta_days_mono: "a \<le> b \<Longrightarrow> timedelta_days a \<le> timedelta_days b"
  by (simp add: timedelta_days_def zdiv_mono1)

text \<open>
  Claim C7. \<open>_months_since\<close> returns \<open>None\<close> for the empty string, for a text that
  \<open>fromisoformat\<close> rejects, and for a text that parses without a UTC offset (the
  subtraction from the aware \<open>now\<close> raises, and the handler returns \<open>None\<close>). For a text
  that parses with an offset it returns the whole days between \<open>now\<close> and the timestamp,
  divided by 30 and truncated toward zero (\<open>sdiv\<close>). It is monotone: of two such
  timestamps in the past, the earlier one has at least as many months, at the same \<open>now\<close>.
  The claim as first stated, for every parsable timestamp, fails on one without an offset.
\<close>

theorem months_since_aware:
  "months_since e (JStr []) = None \<and>
   (fromisoformat e (replace s ''Z'' ''+00:00'') = None \<longrightarrow> months_since e (JStr s) = None) \<and>
   (\<forall>t. fromisoformat e (replace s ''Z'' ''+00:00'') = Some (Naive t) \<longrightarrow>
        months_since e (JStr s) = None) \<and>
   (\<forall>t. s \<noteq> [] \<and> fromisoformat e (replace s ''Z'' ''+00:00'') = Some (Aware t) \<longrightarrow>
        months_since e (JStr s) = Some (((now_utc e - t) div 86400000000) sdiv 30)) \<and>
   (\<forall>s2 t1 t2.
        s \<noteq> [] \<and> s2 \<noteq> [] \<and>
        fromisoformat e (replace s ''Z'' ''+00:00'') = Some (Aware t1) \<and>
        fromisoformat e (replace s2 ''Z'' ''+00:00'') = Some (Aware t2) \<and>
        t1 < t2 \<and> t2 \<le> now_utc e \<longrightarrow>
        (\<exists>m1 m2. months_since e (JStr s) = Some m1 \<and> months_since e (JStr s2) = Some m2 \<and>
                 m1 \<ge> m2))"
proof -
  have aware: "months_since e (JStr x) = Some (int_div30 (timedelta_days (now_utc e - t)))"
    if "x \<noteq> []" and "fromisoformat e (replace x ''Z'' ''+00:00'') = Some (Aware t)" for x t
    using that by (simp add: months_since_def)
  have 1: "months_since e (JStr []) = None" by (simp add: months_since_def)
  have 2: "fromisoformat e (replace s ''Z'' ''+00:00'') = None \<longrightarrow> months_since e (JStr s) = None"
    by (simp add: months_since_def)
  have 3: "\<forall>t. fromisoformat e (replace s ''Z'' ''+00:00'') = Some (Naive t) \<longrightarrow>
        months_since e (JStr s) = None"
    by (auto simp: months_since_def)
  have 4: "\<forall>t. s \<noteq> [] \<and> fromisoformat e (replace s ''Z'' ''+00:00'') = Some (Aware t) \<longrightarrow>
        months_since e (JStr s) = Some (((now_utc e - t) div 86400000000) sdiv 30)"
    using aware by (simp add: int_div30_sdiv timedelta_days_def)
  have 5: "\<forall>s2 t1 t2.
        s \<noteq> [] \<and> s2 \<noteq> [] \<and>
        fromisoformat e (replace s ''Z'' ''+00:00'') = Some (Aware t1) \<and>
        fromisoformat e (replace s2 ''Z'' ''+00:00'') = Some (Aware t2) \<and>
        t1 < t2 \<and> t2 \<le> now_utc e \<longrightarrow>
        (\<exists>m1 m2. months_since e (JStr s) = Some m1 \<and> months_since e (JStr s2) = Some m2 \<and>
                 m1 \<ge> m2)"
  proof (intro allI impI)
    fix s2 t1 t2
    assume h: "s \<noteq> [] \<and> s2 \<noteq> [] \<and>
        fromisoformat e (replace s ''Z'' ''+00:00'') = Some (Aware t1) \<and>
        fromisoformat e (replace s2 ''Z'' ''+00:00'') = Some (Aware t2) \<and>
        t1 < t2 \<and> t2 \<le> now_utc e"
    then have "now_utc e - t2 \<le> now_utc e - t1" by simp
    then have "int_div30 (timedelta_days (now_utc e - t2)) \<le> int_div30 (timedelta_days (now_utc e - t1))"
      by (intro int_div30_mono timedelta_days_mono)
    moreover have "months_since e (JStr s) = Some (int_div30 (timedelta_days (now_utc e - t1)))"
      using h aware by blast
    moreover have "months_since e (JStr s2) = Some (int_div30 (timedelta_days (now_utc e - t2)))"
      using h aware by blast
    ultimately show "\<exists>m1 m2. months_since e (JStr s) = Some m1 \<and> months_since e (JStr s2) = Some m2 \<and>
                 m1 \<ge> m2" by simp
  qed
  from 1 2 3 4 5 show ?thesis by (intro conjI)
qed

theorem months_since_naive_counterexample:
  "fromisoformat sample_env (replace ''2024-01-15T10:30:00'' ''Z'' ''+00:00'')
     = Some (Naive 1705314600000000) \<and>
   months_since sample_env (JStr ''2024-01-15T10:30:00'') = None"
  by (simp add: months_since_def sample_env_def sample_fromisoformat_def startswith_def)

theorem months_since_aware_witness:
  "months_since sample_env (JStr ''2023-11-20T08:00:00.000Z'') = Some 6 \<and>
   months_since sample_env (JStr ''2024-02-20T12:00:00.000Z'') = Some 3 \<and>
   months_since sample_env (JStr ''not-a-date'') = None \<and>
   months_since sample_env (JStr ''2024-01-15T10:30:00'') = None \<and>
   (\<exists>m1 m2. months_since sample_env (JStr ''2023-11-20T08:00:00.000Z'') = Some m1 \<and>
            months_since sample_env (JStr ''2024-02-20T12:00:00.000Z'') = Some m2 \<and> m1 \<ge> m2)"
proof -
  let ?s1 = "''2023-11-20T08:00:00.000Z''" and ?s2 = "''2024-02-20T12:00:00.000Z''"
  have f1: "fromisoformat sample_env (replace ?s1 ''Z'' ''+00:00'') = Some (Aware 1700467200000000)"
    by (simp add: sample_env_def sample_fromisoformat_def startswith_def)
  have f2: "fromisoformat sample_env (replace ?s2 ''Z'' ''+00:00'') = Some (Aware 1708430400000000)"
    by (simp add: sample_env_def sample_fromisoformat_def startswith_def)
  have f3: "fromisoformat sample_env (replace ''not-a-date'' ''Z'' ''+00:00'') = None"
    by (simp add: sample_env_def sample_fromisoformat_def startswith_def)
  have f4: "fromisoformat sample_env (replace ''2024-01-15T10:30:00'' ''Z'' ''+00:00'')
      = Some (Naive 1705314600000000)"
    by (simp add: sample_env_def sample_fromisoformat_def startswith_def)
  have now: "now_utc sample_env = 1717200000000000" by (simp add: sample_env_def)
  have d1: "((1717200000000000 - 1700467200000000) div 86400000000 :: int) sdiv 30 = 6"
    by (simp add: signed_divide_int_def)
  have d2: "((1717200000000000 - 1708430400000000) div 86400000000 :: int) sdiv 30 = 3"
    by (simp add: signed_divide_int_def)
  from months_since_aware [of sample_env ?s1] f1 now d1
  have r1: "months_since sample_env (JStr ?s1) = Some 6" by simp
  from months_since_aware [of sample_env ?s2] f2 now d2
  have r2: "months_since sample_env (JStr ?s2) = Some 3" by simp
  from months_since_aware [of sample_env "''not-a-date''"] f3
  have r3: "months_since sample_env (JStr ''not-a-date'') = None" by blast
  from months_since_aware [of sample_env "''2024-01-15T10:30:00''"] f4
  have r4: "months_since sample_env (JStr ''2024-01-15T10:30:00'') = None" by blast
  have lt: "(1700467200000000::int) < 1708430400000000" "(1708430400000000::int) \<le> now_utc sample_env"
    by (simp_all add: now)
  from months_since_aware [of sample_env ?s1] f1 f2 lt
  have r5: "\<exists>m1 m2. months_since sample_env (JStr ?s1) = Some m1 \<and>
            months_since sample_env (JStr ?s2) = Some m2 \<and> m1 \<ge> m2"
    by blast
  from r1 r2 r3 r4 r5 show ?thesis by (intro conjI)
qed

section \<open>Properties of the dependency health checker\<close>

lemma package_issues_eq:
  "as_int (dict_get d ''contributions_count'' (JInt 0)) = Inr c \<Longrightarrow>
   \<exists>issues. package_issues e d = Inr issues \<and>
     (issues \<noteq> [] \<longleftrightarrow>
        truthy (dict_get d ''deprecated'' (JBool False)) \<or>
        (\<exists>m. months_since e (dict_get d ''latest_release_published_at'' (JStr [])) = Some m \<and> m > 12) \<or>
        c < 2)"
  by (auto simp: package_issues_def Let_def split: option.splits)

lemma classify_record:
  assumes "\<not> has_key d ''error''"
    and "as_int (dict_get d ''contributions_count'' (JInt 0)) = Inr c"
  shows "if truthy (dict_get d ''deprecated'' (JBool False)) \<or>
            (\<exists>m. months_since e (dict_get d ''latest_release_published_at'' (JStr [])) = Some m \<and> m > 12) \<or>
            c < 2
         then \<exists>line. classify e (pkg_name, version, JObj d) = Inr (Risky line)
         else \<exists>line. classify e (pkg_name, version, JObj d) = Inr (Healthy line)"
proof -
  from package_issues_eq [OF assms(2)] obtain issues where
    i: "package_issues e d = Inr issues" and
    c: "issues \<noteq> [] \<longleftrightarrow>
        truthy (dict_get d ''deprecated'' (JBool False)) \<or>
        (\<exists>m. months_since e (dict_get d ''latest_release_published_at'' (JStr [])) = Some m \<and> m > 12) \<or>
        c < 2"
    by blast
  show ?thesis
  proof (cases "issues = []")
    case True
    with i c assms(1) show ?thesis by (simp add: classify_def)
  next
    case False
    with i c assms(1) show ?thesis by (simp add: classify_def)
  qed
qed

text \<open>
  Claim C1. A record that was fetched without error (a \<open>dict\<close> with no \<open>error\<close> key, its
  contributor count a number) is classified risky if and only if its \<open>deprecated\<close> flag
  is true, or its months since the last release are known and more than 12, or its
  contributor count is below 2; otherwise it is classified healthy. So \<open>deprecated\<close>
  alone makes it risky, one contributor alone makes it risky, and five contributors with
  \<open>deprecated\<close> false and 6 months give healthy.
\<close>

theorem classify_risky_iff:
  "\<not> has_key d ''error'' \<and> as_int (dict_get d ''contributions_count'' (JInt 0)) = Inr c \<longrightarrow>
     ((\<exists>line. classify e (pkg_name, version, JObj d) = Inr (Risky line)) \<longleftrightarrow>
        truthy (dict_get d ''deprecated'' (JBool False)) \<or>
        (\<exists>m. months_since e (dict_get d ''latest_release_published_at'' (JStr [])) = Some m \<and> m > 12) \<or>
        c < 2) \<and>
     ((\<exists>line. classify e (pkg_name, version, JObj d) = Inr (Healthy line)) \<longleftrightarrow>
        \<not> (truthy (dict_get d ''deprecated'' (JBool False)) \<or>
           (\<exists>m. months_since e (dict_get d ''latest_release_published_at'' (JStr [])) = Some m \<and> m > 12) \<or>
           c < 2)) \<and>
     (dict_get d ''deprecated'' (JBool False) = JBool True \<longrightarrow>
        (\<exists>line. classify e (pkg_name, version, JObj d) = Inr (Risky line))) \<and>
     (c = 1 \<longrightarrow> (\<exists>line. classify e (pkg_name, version, JObj d) = Inr (Risky line))) \<and>
     (c = 5 \<and> dict_get d ''deprecated'' (JBool False) = JBool False \<and>
      months_since e (dict_get d ''latest_release_published_at'' (JStr [])) = Some 6 \<longrightarrow>
        (\<exists>line. classify e (pkg_name, version, JObj d) = Inr (Healthy line)))"
proof (rule impI)
  assume h: "\<not> has_key d ''error'' \<and> as_int (dict_get d ''contributions_count'' (JInt 0)) = Inr c"
  let ?cond = "truthy (dict_get d ''deprecated'' (JBool False)) \<or>
        (\<exists>m. months_since e (dict_get d ''latest_release_published_at'' (JStr [])) = Some m \<and> m > 12) \<or>
        c < 2"
  let ?risky = "\<exists>line. classify e (pkg_name, version, JObj d) = Inr (Risky line)"
  let ?healthy = "\<exists>line. classify e (pkg_name, version, JObj d) = Inr (Healthy line)"
  from h have r: "if ?cond then ?risky else ?healthy"
    using classify_record [of d c e pkg_name version] by blast
  have excl: "\<not> (?risky \<and> ?healthy)" by auto
  have 1: "?risky \<longleftrightarrow> ?cond"
  proof (cases ?cond)
    case True
    with r have ?risky by (simp only: if_True)
    with True show ?thesis by blast
  next
    case False
    with r have ?healthy by (simp only: if_False)
    with excl have "\<not> ?risky" by blast
    with False show ?thesis by blast
  qed
  have 2: "?healthy \<longleftrightarrow> \<not> ?cond"
  proof (cases ?cond)
    case True
    with r have ?risky by (simp only: if_True)
    with excl have "\<not> ?healthy" by blast
    with True show ?thesis by blast
  next
    case False
    with r have ?healthy by (simp only: if_False)
    with False show ?thesis by blast
  qed
  have 3: "dict_get d ''deprecated'' (JBool False) = JBool True \<longrightarrow> ?risky"
    using 1 by simp
  have 4: "c = 1 \<longrightarrow> ?risky" using 1 by simp
  have 5: "c = 5 \<and> dict_get d ''deprecated'' (JBool False) = JBool False \<and>
      months_since e (dict_get d ''latest_release_published_at'' (JStr [])) = Some 6 \<longrightarrow> ?healthy"
    using 2 by simp
  from 1 2 3 4 5 show "(?risky \<longleftrightarrow> ?cond) \<and> (?healthy \<longleftrightarrow> \<not> ?cond) \<and>
     (dict_get d ''deprecated'' (JBool False) = JBool True \<longrightarrow> ?risky) \<and>
     (c = 1 \<longrightarrow> ?risky) \<and>
     (c = 5 \<and> dict_get d ''deprecated'' (JBool False) = JBool False \<and>
      months_since e (dict_get d ''latest_release_published_at'' (JStr [])) = Some 6 \<longrightarrow> ?healthy)"
    by (intro conjI)
qed

lemma sample_months:
  "months_since sample_env (JStr ''2023-11-20T08:00:00.000Z'') = Some 6"
  "months_since sample_env (JStr ''2024-02-20T12:00:00.000Z'') = Some 3"
  "months_since sample_env (JStr ''2022-01-01T00:00:00.000Z'') = Some 29"
  "months_since sample_env (JStr ''2024-05-30T00:00:00.000Z'') = Some 0"
  by (simp_all add: months_since_def sample_env_def sample_fromisoformat_def startswith_def
      int_div30_def timedelta_days_def)

theorem classify_risky_iff_witness:
  "(\<exists>line. classify sample_env (''leftpad'', JStr ''>=1.0'', leftpad_record) = Inr (Risky line)) \<and>
   (\<exists>line. classify sample_env (''bottle'', JStr [], bottle_record) = Inr (Risky line)) \<and>
   (\<exists>line. classify sample_env (''oldlib'', JStr [], oldlib_record) = Inr (Risky line)) \<and>
   (\<exists>line. classify sample_env (''flask'', JStr ''==2.0.1'', flask_record) = Inr (Healthy line))"
proof -
  have 1: "\<exists>line. classify sample_env (''leftpad'', JStr ''>=1.0'', leftpad_record) = Inr (Risky line)"
    unfolding leftpad_record_def
    by (rule classify_risky_iff [where c = 7, THEN mp, THEN conjunct2, THEN conjunct2, THEN conjunct1, THEN mp])
       (simp_all add: has_key_def dict_get_def)
  have 2: "\<exists>line. classify sample_env (''bottle'', JStr [], bottle_record) = Inr (Risky line)"
    unfolding bottle_record_def
    by (rule classify_risky_iff [where c = 1, THEN mp, THEN conjunct2, THEN conjunct2, THEN conjunct2, THEN conjunct1, THEN mp])
       (simp_all add: has_key_def dict_get_def)
  have 3: "\<exists>line. classify sample_env (''oldlib'', JStr [], oldlib_record) = Inr (Risky line)"
    unfolding oldlib_record_def
    by (rule classify_risky_iff [where c = 9, THEN mp, THEN conjunct1, THEN iffD2])
       (simp_all add: has_key_def dict_get_def sample_months)
  have 4: "\<exists>line. classify sample_env (''flask'', JStr ''==2.0.1'', flask_record) = Inr (Healthy line)"
    unfolding flask_record_def
    by (rule classify_risky_iff [where c = 5, THEN mp, THEN conjunct2, THEN conjunct2, THEN conjunct2, THEN conjunct2, THEN mp])
       (simp_all add: has_key_def dict_get_def sample_months)
  from 1 2 3 4 show ?thesis by (intro conjI)
qed

lemma classify_prefix:
  "classify e fetched = Inr (Unknown line) \<Longrightarrow> prefix ''  ? '' line"
  "classify e fetched = Inr (Risky line) \<Longrightarrow> prefix ''  [!] '' line"
  "classify e fetched = Inr (Healthy line) \<Longrightarrow> prefix ''  [ok] '' line"
  by (auto simp: classify_def split: prod.splits if_splits json.splits sum.splits)

lemma classify_loop_shape:
  "classify_loop e rs (a, r, h) = Inr (a', r', h') \<Longrightarrow>
   \<exists>u r2 h2. a' = a @ u \<and> r' = r @ r2 \<and> h' = h @ h2 \<and>
     length u + length r2 + length h2 = length rs \<and>
     (\<forall>l \<in> set u. prefix ''  ? '' l) \<and>
     (\<forall>l \<in> set r2. prefix ''  [!] '' l) \<and>
     (\<forall>l \<in> set h2. prefix ''  [ok] '' l)"
proof (induction rs arbitrary: a r h)
  case Nil
  then show ?case by simp
next
  case (Cons x rs)
  from Cons.prems obtain en where en: "classify e x = Inr en"
    by (cases "classify e x") auto
  show ?case
  proof (cases en)
    case (Unknown line)
    with en Cons.prems have "classify_loop e rs (a @ [line], r, h) = Inr (a', r', h')" by simp
    from Cons.IH [OF this] obtain u r2 h2 where
      "a' = (a @ [line]) @ u" "r' = r @ r2" "h' = h @ h2"
      "length u + length r2 + length h2 = length rs"
      "\<forall>l \<in> set u. prefix ''  ? '' l" "\<forall>l \<in> set r2. prefix ''  [!] '' l"
      "\<forall>l \<in> set h2. prefix ''  [ok] '' l" by blast
    moreover have "prefix ''  ? '' line" using en Unknown classify_prefix(1) by blast
    ultimately show ?thesis
      by (intro exI [of _ "line # u"] exI [of _ r2] exI [of _ h2]) simp
  next
    case (Risky line)
    with en Cons.prems have "classify_loop e rs (a, r @ [line], h) = Inr (a', r', h')" by simp
    from Cons.IH [OF this] obtain u r2 h2 where
      "a' = a @ u" "r' = (r @ [line]) @ r2" "h' = h @ h2"
      "length u + length r2 + length h2 = length rs"
      "\<forall>l \<in> set u. prefix ''  ? '' l" "\<forall>l \<in> set r2. prefix ''  [!] '' l"
      "\<forall>l \<in> set h2. prefix ''  [ok] '' l" by blast
    moreover have "prefix ''  [!] '' line" using en Risky classify_prefix(2) by blast
    ultimately show ?thesis
      by (intro exI [of _ u] exI [of _ "line # r2"] exI [of _ h2]) simp
  next
    case (Healthy line)
    with en Cons.prems have "classify_loop e rs (a, r, h @ [line]) = Inr (a', r', h')" by simp
    from Cons.IH [OF this] obtain u r2 h2 where
      "a' = a @ u" "r' = r @ r2" "h' = (h @ [line]) @ h2"
      "length u + length r2 + length h2 = length rs"
      "\<forall>l \<in> set u. prefix ''  ? '' l" "\<forall>l \<in> set r2. prefix ''  [!] '' l"
      "\<forall>l \<in> set h2. prefix ''  [ok] '' l" by blast
    moreover have "prefix ''  [ok] '' line" using en Healthy classify_prefix(3) by blast
    ultimately show ?thesis
      by (intro exI [of _ u] exI [of _ r2] exI [of _ "line # h2"]) simp
  qed
qed

lemma classify_loop_returns:
  "(\<forall>x \<in> set rs. \<exists>en. classify e x = Inr en) \<Longrightarrow> \<exists>st'. classify_loop e rs st = Inr st'"
proof (induction rs arbitrary: st)
  case Nil
  show ?case by (rule exI) (rule classify_loop.simps(1))
next
  case (Cons x rs)
  obtain a r h where st: "st = (a, r, h)" by (metis prod_cases3)
  from Cons.prems obtain en where en: "classify e x = Inr en" by auto
  from Cons.prems have rest: "\<forall>x \<in> set rs. \<exists>en. classify e x = Inr en" by simp
  show ?case unfolding st using en Cons.IH [OF rest]
    by (cases en) simp_all
qed

lemma blocks_order:
  assumes "lines = xs @ ys"
    and "\<forall>l \<in> set xs. \<not> P l" and "\<forall>l \<in> set ys. \<not> Q l"
    and "i < length lines" and "j < length lines"
    and "P (lines ! i)" and "Q (lines ! j)"
  shows "j < i"
proof -
  have "\<not> i < length xs"
  proof
    assume "i < length xs"
    then have "lines ! i \<in> set xs" using assms(1) by (simp add: nth_append)
    with assms(2,6) show False by blast
  qed
  moreover have "j < length xs"
  proof (rule ccontr)
    assume "\<not> j < length xs"
    then have "lines ! j = ys ! (j - length xs)" and "j - length xs < length ys"
      using assms(1,5) by (auto simp: nth_append)
    then have "lines ! j \<in> set ys" by (metis nth_mem)
    with assms(3,7) show False by blast
  qed
  ultimately show ?thesis by simp
qed

lemma prefix_clash:
  "prefix ''  ? '' l \<Longrightarrow> \<not> prefix ''  [ok] '' l"
  "prefix ''  [!] '' l \<Longrightarrow> \<not> prefix ''  [ok] '' l"
  "prefix ''  [ok] '' l \<Longrightarrow> \<not> prefix ''  [!] '' l"
  "\<not> prefix ''  [ok] '' (CHR 0x0A # l)"
  by (auto simp: prefix_def)

lemma extract_packages_requests [simp]:
  "extract_packages (e\<lparr>requests_get := g\<rparr>) filename content = extract_packages e filename content"
  by (simp add: extract_packages_def split: option.splits)

lemma months_since_requests [simp]:
  "months_since (e\<lparr>requests_get := g\<rparr>) v = months_since e v"
  by (simp add: months_since_def split: json.splits option.splits datetime.splits)

lemma fstr_requests [simp]: "fstr (e\<lparr>requests_get := g\<rparr>) v = fstr e v"
  by (simp add: fstr_def split: json.splits)

lemma package_issues_requests [simp]:
  "package_issues (e\<lparr>requests_get := g\<rparr>) d = package_issues e d"
  by (simp add: package_issues_def)

lemma classify_requests [simp]:
  "classify (e\<lparr>requests_get := g\<rparr>) fetched = classify e fetched"
  by (simp add: classify_def split: prod.splits json.splits sum.splits)

lemma classify_loop_requests [simp]:
  "classify_loop (e\<lparr>requests_get := g\<rparr>) rs st = classify_loop e rs st"
proof (induction rs arbitrary: st)
  case Nil
  show ?case by simp
next
  case (Cons x rs)
  obtain a r h where st: "st = (a, r, h)" by (metis prod_cases3)
  show ?case unfolding st by (simp add: Cons.IH split: sum.splits entry.splits)
qed

lemma fetch_package_requests:
  "(\<And>params. g (LIBRARIES_IO_BASE @ ''/'' @ platform @ ''/'' @ fst p) params
      = requests_get e (LIBRARIES_IO_BASE @ ''/'' @ platform @ ''/'' @ fst p) params) \<Longrightarrow>
   fetch_package (e\<lparr>requests_get := g\<rparr>) platform p = fetch_package e platform p"
  by (cases p) (simp add: fetch_package_def api_get_def)

text \<open>
  Claim C8. The section of one manifest file is its header, then the lines of the
  packages whose lookup failed, then every risky line, then every healthy line: a risky
  line always comes before a healthy one. It has one line for each of the first 20
  parsed packages at most, and only those are looked up: the section is the same under
  any HTTP client that agrees on the registry URLs of these packages. It is produced
  whenever each of these lookups can be classified.
\<close>

theorem file_section_shape:
  "(file_section e filename content = Inr lines \<and> lines \<noteq> [] \<longrightarrow>
      (\<exists>platform unknown risky healthy.
         map_of PACKAGE_FILES filename = Some platform \<and>
         lines = ([CHR 0x0A] @ filename @ '' ('' @ platform @ ''):'') # unknown @ risky @ healthy \<and>
         length unknown + length risky + length healthy
           = min 20 (length (extract_packages e filename content)) \<and>
         (\<forall>l \<in> set unknown. prefix ''  ? '' l) \<and>
         (\<forall>l \<in> set risky. prefix ''  [!] '' l) \<and>
         (\<forall>l \<in> set healthy. prefix ''  [ok] '' l)) \<and>
      (\<forall>i j. i < length lines \<and> j < length lines \<and>
         prefix ''  [ok] '' (lines ! i) \<and> prefix ''  [!] '' (lines ! j) \<longrightarrow> j < i)) \<and>
   ((\<forall>platform p params.
        map_of PACKAGE_FILES filename = Some platform \<and>
        p \<in> set (take 20 (extract_packages e filename content)) \<longrightarrow>
        g (LIBRARIES_IO_BASE @ ''/'' @ platform @ ''/'' @ fst p) params
          = requests_get e (LIBRARIES_IO_BASE @ ''/'' @ platform @ ''/'' @ fst p) params) \<longrightarrow>
      file_section (e\<lparr>requests_get := g\<rparr>) filename content = file_section e filename content) \<and>
   ((\<forall>platform p.
        map_of PACKAGE_FILES filename = Some platform \<and>
        p \<in> set (take 20 (extract_packages e filename content)) \<longrightarrow>
        (\<exists>en. classify e (fetch_package e platform p) = Inr en)) \<longrightarrow>
      (\<exists>lines. file_section e filename content = Inr lines))"
proof (rule conjI [OF _ conjI]; rule impI)
  assume h: "file_section e filename content = Inr lines \<and> lines \<noteq> []"
  let ?pk = "extract_packages e filename content"
  from h obtain platform where pf: "map_of PACKAGE_FILES filename = Some platform"
    by (cases "map_of PACKAGE_FILES filename") (auto simp: file_section_def)
  let ?header = "[CHR 0x0A] @ filename @ '' ('' @ platform @ ''):''"
  from h pf have ne: "platform \<noteq> []" "?pk \<noteq> []"
    by (auto simp: file_section_def Let_def split: if_splits)
  from h pf ne obtain a r hl where
    loop: "classify_loop e (map (fetch_package e platform) (take 20 ?pk)) ([?header], [], []) = Inr (a, r, hl)"
    and lines: "lines = a @ r @ hl"
    by (auto simp: file_section_def Let_def split: sum.splits)
  from classify_loop_shape [OF loop] obtain u r2 h2 where
    s: "a = [?header] @ u" "r = r2" "hl = h2"
    "length u + length r2 + length h2 = length (map (fetch_package e platform) (take 20 ?pk))"
    "\<forall>l \<in> set u. prefix ''  ? '' l" "\<forall>l \<in> set r2. prefix ''  [!] '' l"
    "\<forall>l \<in> set h2. prefix ''  [ok] '' l"
    by auto
  have l: "lines = ?header # u @ r2 @ h2" using lines s by simp
  have len: "length u + length r2 + length h2 = min 20 (length ?pk)"
    using s(4) by (simp add: min.commute)
  from pf l len s(5,6,7)
  have shape: "\<exists>platform unknown risky healthy.
         map_of PACKAGE_FILES filename = Some platform \<and>
         lines = ([CHR 0x0A] @ filename @ '' ('' @ platform @ ''):'') # unknown @ risky @ healthy \<and>
         length unknown + length risky + length healthy = min 20 (length ?pk) \<and>
         (\<forall>l \<in> set unknown. prefix ''  ? '' l) \<and>
         (\<forall>l \<in> set risky. prefix ''  [!] '' l) \<and>
         (\<forall>l \<in> set healthy. prefix ''  [ok] '' l)"
    by blast
  have split: "lines = (?header # u @ r2) @ h2" using l by simp
  have no_ok: "\<forall>l \<in> set (?header # u @ r2). \<not> prefix ''  [ok] '' l"
    using s(5,6) prefix_clash by auto
  have no_risky: "\<forall>l \<in> set h2. \<not> prefix ''  [!] '' l"
    using s(7) prefix_clash(3) by blast
  have order: "\<forall>i j. i < length lines \<and> j < length lines \<and>
         prefix ''  [ok] '' (lines ! i) \<and> prefix ''  [!] '' (lines ! j) \<longrightarrow> j < i"
    using blocks_order [OF split no_ok no_risky] by blast
  from shape order show "(\<exists>platform unknown risky healthy.
         map_of PACKAGE_FILES filename = Some platform \<and>
         lines = ([CHR 0x0A] @ filename @ '' ('' @ platform @ ''):'') # unknown @ risky @ healthy \<and>
         length unknown + length risky + length healthy
           = min 20 (length (extract_packages e filename content)) \<and>
         (\<forall>l \<in> set unknown. prefix ''  ? '' l) \<and>
         (\<forall>l \<in> set risky. prefix ''  [!] '' l) \<and>
         (\<forall>l \<in> set healthy. prefix ''  [ok] '' l)) \<and>
      (\<forall>i j. i < length lines \<and> j < length lines \<and>
         prefix ''  [ok] '' (lines ! i) \<and> prefix ''  [!] '' (lines ! j) \<longrightarrow> j < i)"
    by (rule conjI)
next
  assume agree: "\<forall>platform p params.
        map_of PACKAGE_FILES filename = Some platform \<and>
        p \<in> set (take 20 (extract_packages e filename content)) \<longrightarrow>
        g (LIBRARIES_IO_BASE @ ''/'' @ platform @ ''/'' @ fst p) params
          = requests_get e (LIBRARIES_IO_BASE @ ''/'' @ platform @ ''/'' @ fst p) params"
  show "file_section (e\<lparr>requests_get := g\<rparr>) filename content = file_section e filename content"
  proof (cases "map_of PACKAGE_FILES filename")
    case None
    then show ?thesis by (simp add: file_section_def)
  next
    case (Some platform)
    have m: "map (fetch_package (e\<lparr>requests_get := g\<rparr>) platform) (take 20 (extract_packages e filename content))
        = map (fetch_package e platform) (take 20 (extract_packages e filename content))"
      using agree Some by (intro map_cong refl fetch_package_requests) blast
    from Some show ?thesis by (simp add: file_section_def Let_def m)
  qed
next
  assume ok: "\<forall>platform p.
        map_of PACKAGE_FILES filename = Some platform \<and>
        p \<in> set (take 20 (extract_packages e filename content)) \<longrightarrow>
        (\<exists>en. classify e (fetch_package e platform p) = Inr en)"
  show "\<exists>lines. file_section e filename content = Inr lines"
  proof (cases "map_of PACKAGE_FILES filename")
    case None
    then show ?thesis by (simp add: file_section_def)
  next
    case (Some platform)
    let ?header = "[CHR 0x0A] @ filename @ '' ('' @ platform @ ''):''"
    from ok Some have "\<forall>x \<in> set (map (fetch_package e platform) (take 20 (extract_packages e filename content))).
        \<exists>en. classify e x = Inr en" by auto
    from classify_loop_returns [OF this, of "([?header], [], [])"]
    obtain a r h where "classify_loop e (map (fetch_package e platform) (take 20 (extract_packages e filename content)))
        ([?header], [], []) = Inr (a, r, h)" by (metis prod_cases3)
    with Some show ?thesis by (simp add: file_section_def Let_def)
  qed
qed

theorem file_section_shape_witness:
  "file_section sample_env ''requirements.txt''
     (''flask==2.0.1'' @ [CHR 0x0A] @ ''leftpad>=1.0'' @ [CHR 0x0A] @ ''# tools'' @ [CHR 0x0A] @ ''solo'' @ [CHR 0x0A])
   = Inr [[CHR 0x0A] @ ''requirements.txt (pypi):'',
          ''  ? solo '' @ em_dash @ '' could not fetch info'',
          ''  [!] leftpad >=1.0 '' @ em_dash @ '' DEPRECATED'',
          ''  [ok] flask ==2.0.1''] \<and>
   (\<exists>platform unknown risky healthy.
      map_of PACKAGE_FILES ''requirements.txt'' = Some platform \<and>
      [[CHR 0x0A] @ ''requirements.txt (pypi):'',
       ''  ? solo '' @ em_dash @ '' could not fetch info'',
       ''  [!] leftpad >=1.0 '' @ em_dash @ '' DEPRECATED'',
       ''  [ok] flask ==2.0.1'']
        = ([CHR 0x0A] @ ''requirements.txt'' @ '' ('' @ platform @ ''):'') # unknown @ risky @ healthy \<and>
      length unknown + length risky + length healthy = 3 \<and>
      list_all (prefix ''  ? '') unknown \<and>
      list_all (prefix ''  [!] '') risky \<and>
      list_all (prefix ''  [ok] '') healthy) \<and>
   file_section
     (sample_env\<lparr>requests_get :=
        \<lambda>url params. if url = ''https://libraries.io/api/pypi/quart'' then Failed ''down''
                     else sample_requests url params\<rparr>)
     ''requirements.txt''
     (''flask==2.0.1'' @ [CHR 0x0A] @ ''leftpad>=1.0'' @ [CHR 0x0A] @ ''# tools'' @ [CHR 0x0A] @ ''solo'' @ [CHR 0x0A])
   = file_section sample_env ''requirements.txt''
     (''flask==2.0.1'' @ [CHR 0x0A] @ ''leftpad>=1.0'' @ [CHR 0x0A] @ ''# tools'' @ [CHR 0x0A] @ ''solo'' @ [CHR 0x0A]) \<and>
   (\<exists>lines. file_section sample_env ''requirements.txt''
     (''flask==2.0.1'' @ [CHR 0x0A] @ ''leftpad>=1.0'' @ [CHR 0x0A] @ ''# tools'' @ [CHR 0x0A] @ ''solo'' @ [CHR 0x0A])
     = Inr lines)"
proof -
  let ?c = "''flask==2.0.1'' @ [CHR 0x0A] @ ''leftpad>=1.0'' @ [CHR 0x0A] @ ''# tools'' @ [CHR 0x0A] @ ''solo'' @ [CHR 0x0A]"
  let ?L = "[[CHR 0x0A] @ ''requirements.txt (pypi):'',
          ''  ? solo '' @ em_dash @ '' could not fetch info'',
          ''  [!] leftpad >=1.0 '' @ em_dash @ '' DEPRECATED'',
          ''  [ok] flask ==2.0.1'']"
  let ?g = "\<lambda>url params. if url = ''https://libraries.io/api/pypi/quart'' then Failed ''down''
                     else sample_requests url params"
  have ev: "file_section sample_env ''requirements.txt'' ?c = Inr ?L" by code_simp
  have ne: "?L \<noteq> []" by simp
  have ep: "extract_packages sample_env ''requirements.txt'' ?c
      = [(''flask'', JStr ''==2.0.1''), (''leftpad'', JStr ''>=1.0''), (''solo'', JStr [])]"
    by code_simp
  have pf: "map_of PACKAGE_FILES ''requirements.txt'' = Some ''pypi''"
    by (simp add: PACKAGE_FILES_def)
  note t = file_section_shape [of sample_env "''requirements.txt''" ?c ?L ?g]
  from t ev ne obtain platform unknown risky healthy where
    a: "map_of PACKAGE_FILES ''requirements.txt'' = Some platform" and
    b: "?L = ([CHR 0x0A] @ ''requirements.txt'' @ '' ('' @ platform @ ''):'') # unknown @ risky @ healthy" and
    c: "length unknown + length risky + length healthy
        = min 20 (length (extract_packages sample_env ''requirements.txt'' ?c))" and
    d: "\<forall>l \<in> set unknown. prefix ''  ? '' l" "\<forall>l \<in> set risky. prefix ''  [!] '' l"
       "\<forall>l \<in> set healthy. prefix ''  [ok] '' l"
    by blast
  from c have c': "length unknown + length risky + length healthy = 3"
    unfolding ep by simp
  from d have d': "list_all (prefix ''  ? '') unknown" "list_all (prefix ''  [!] '') risky"
    "list_all (prefix ''  [ok] '') healthy"
    by (simp_all only: list_all_iff)
  from a b c' d' have shape: "\<exists>platform unknown risky healthy.
      map_of PACKAGE_FILES ''requirements.txt'' = Some platform \<and>
      ?L = ([CHR 0x0A] @ ''requirements.txt'' @ '' ('' @ platform @ ''):'') # unknown @ risky @ healthy \<and>
      length unknown + length risky + length healthy = 3 \<and>
      list_all (prefix ''  ? '') unknown \<and>
      list_all (prefix ''  [!] '') risky \<and>
      list_all (prefix ''  [ok] '') healthy"
    by blast
  have agree: "\<forall>platform p params.
        map_of PACKAGE_FILES ''requirements.txt'' = Some platform \<and>
        p \<in> set (take 20 (extract_packages sample_env ''requirements.txt'' ?c)) \<longrightarrow>
        ?g (LIBRARIES_IO_BASE @ ''/'' @ platform @ ''/'' @ fst p) params
          = requests_get sample_env (LIBRARIES_IO_BASE @ ''/'' @ platform @ ''/'' @ fst p) params"
    unfolding ep pf by (auto simp: LIBRARIES_IO_BASE_def sample_env_def)
  from t agree have indep: "file_section (sample_env\<lparr>requests_get := ?g\<rparr>) ''requirements.txt'' ?c
      = file_section sample_env ''requirements.txt'' ?c"
    by blast
  have c1: "\<exists>en. classify sample_env (fetch_package sample_env ''pypi'' (''flask'', JStr ''==2.0.1'')) = Inr en"
    by (rule exI [of _ "Healthy ''  [ok] flask ==2.0.1''"]) code_simp
  have c2: "\<exists>en. classify sample_env (fetch_package sample_env ''pypi'' (''leftpad'', JStr ''>=1.0'')) = Inr en"
    by (rule exI [of _ "Risky (''  [!] leftpad >=1.0 '' @ em_dash @ '' DEPRECATED'')"]) code_simp
  have c3: "\<exists>en. classify sample_env (fetch_package sample_env ''pypi'' (''solo'', JStr [])) = Inr en"
    by (rule exI [of _ "Unknown (''  ? solo '' @ em_dash @ '' could not fetch info'')"]) code_simp
  have ok: "\<forall>platform p.
        map_of PACKAGE_FILES ''requirements.txt'' = Some platform \<and>
        p \<in> set (take 20 (extract_packages sample_env ''requirements.txt'' ?c)) \<longrightarrow>
        (\<exists>en. classify sample_env (fetch_package sample_env platform p) = Inr en)"
    unfolding ep pf using c1 c2 c3 by auto
  from t ok have ret: "\<exists>lines. file_section sample_env ''requirements.txt'' ?c = Inr lines"
    by blast
  from ev shape indep ret show ?thesis by (intro conjI)
qed

section \<open>Properties of the search for alternatives\<close>

lemma map_err_Inr:
  "map_err f xs = Inr ys \<Longrightarrow> length ys = length xs \<and> (\<forall>i < length xs. f (xs ! i) = Inr (ys ! i))"
proof (induction xs arbitrary: ys)
  case Nil
  then show ?case by simp
next
  case (Cons x xs)
  from Cons.prems obtain y ys' where y: "f x = Inr y" and r: "map_err f xs = Inr ys'" and e: "ys = y # ys'"
    by (auto split: sum.splits)
  from Cons.IH [OF r] have "length ys' = length xs" and "\<forall>i < length xs. f (xs ! i) = Inr (ys' ! i)"
    by auto
  with y e show ?case by (auto simp: nth_Cons split: nat.splits)
qed

lemma map_err_returns:
  "(\<forall>x \<in> set xs. \<exists>y. f x = Inr y) \<Longrightarrow> \<exists>ys. map_err f xs = Inr ys"
  by (induction xs) (auto split: sum.splits)

lemma map_err_map: "map_err f xs = Inr ys \<Longrightarrow> map f xs = map Inr ys"
  using map_err_Inr [of f xs ys] by (auto intro: nth_equalityI)

lemma alt_filter_Inr:
  "alt_filter package_name ps = Inr kept \<Longrightarrow>
   kept = filter (\<lambda>p. name_differs package_name p = Inr True) ps \<and>
   (\<forall>p \<in> set ps. \<exists>b. name_differs package_name p = Inr b)"
proof (induction ps arbitrary: kept)
  case Nil
  then show ?case by simp
next
  case (Cons p ps)
  from Cons.prems obtain keep rest where
    k: "name_differs package_name p = Inr keep" and r: "alt_filter package_name ps = Inr rest"
    and e: "kept = (if keep then p # rest else rest)"
    by (auto split: sum.splits)
  from Cons.IH [OF r] k e show ?case by auto
qed

lemma alt_filter_returns:
  "(\<forall>p \<in> set ps. \<exists>b. name_differs package_name p = Inr b) \<Longrightarrow>
   \<exists>kept. alt_filter package_name ps = Inr kept"
  by (induction ps) (auto split: sum.splits)

lemma map_err_pairs:
  "(\<forall>x \<in> set z. f (snd x) = Inr (fst x)) \<Longrightarrow> map_err f (map snd z) = Inr (map fst z)"
  by (induction z) simp_all

lemma sorted_desc_neg:
  "sorted (map (\<lambda>x. - f x) xs) \<Longrightarrow> sorted_wrt (\<lambda>a b. a \<ge> b) (map f (xs :: 'a list) :: int list)"
  by (induction xs) auto

lemma sort_by_stars_Inr:
  assumes "sort_by_stars ps = Inr sorted_ps"
  shows "\<exists>keys. map_err stars_of sorted_ps = Inr keys \<and> sorted_wrt (\<lambda>a b. a \<ge> b) keys"
    and "set sorted_ps = set ps" and "length sorted_ps = length ps"
proof -
  from assms obtain keys where k: "map_err stars_of ps = Inr keys"
    and s: "sorted_ps = map snd (sort_key (\<lambda>(k, p). - k) (zip keys ps))"
    by (auto simp: sort_by_stars_def split: sum.splits)
  let ?z = "sort_key (\<lambda>(k, p). - k) (zip keys ps)"
  from map_err_Inr [OF k] have len: "length keys = length ps"
    and nth: "\<forall>i < length ps. stars_of (ps ! i) = Inr (keys ! i)" by auto
  have pair: "stars_of p = Inr k" if "(k, p) \<in> set (zip keys ps)" for k p
    using that nth len by (auto simp: set_zip)
  have "set ?z = set (zip keys ps)" by simp
  then have "\<forall>x \<in> set ?z. stars_of (snd x) = Inr (fst x)" using pair by auto
  then have m: "map_err stars_of (map snd ?z) = Inr (map fst ?z)" by (rule map_err_pairs)
  have "sorted (map (\<lambda>(k, p). - k) ?z)" by (rule sorted_sort_key)
  then have "sorted (map (\<lambda>x. - fst x) ?z)" by (simp add: case_prod_unfold)
  then have "sorted_wrt (\<lambda>a b. a \<ge> b) (map fst ?z)" by (rule sorted_desc_neg)
  with m s show "\<exists>keys. map_err stars_of sorted_ps = Inr keys \<and> sorted_wrt (\<lambda>a b. a \<ge> b) keys"
    by blast
  have "set (map snd ?z) = snd ` set (zip keys ps)" by simp
  also have "\<dots> = set (map snd (zip keys ps))" by simp
  also have "\<dots> = set ps" using len by simp
  finally show "set sorted_ps = set ps" using s by simp
  show "length sorted_ps = length ps" using s len by simp
qed

lemma sort_by_stars_returns:
  "(\<forall>p \<in> set ps. \<exists>k. stars_of p = Inr k) \<Longrightarrow> \<exists>sorted_ps. sort_by_stars ps = Inr sorted_ps"
  using map_err_returns [of ps stars_of] by (auto simp: sort_by_stars_def)

lemma map_err_take:
  "map_err f xs = Inr ys \<Longrightarrow> map_err f (take n xs) = Inr (take n ys)"
proof (induction xs arbitrary: ys n)
  case Nil
  then show ?case by simp
next
  case (Cons x xs)
  from Cons.prems obtain y ys' where "f x = Inr y" "map_err f xs = Inr ys'" "ys = y # ys'"
    by (auto split: sum.splits)
  with Cons.IH show ?case by (cases n) simp_all
qed

lemma sorted_wrt_take: "sorted_wrt P xs \<Longrightarrow> sorted_wrt P (take n xs)"
  by (metis append_take_drop_id sorted_wrt_append)

lemma registry_record_ok:
  assumes "registry_record p"
  shows "\<exists>b. name_differs package_name p = Inr b"
    and "\<exists>k. stars_of p = Inr k"
    and "\<exists>s. alt_block e p = Inr s"
proof -
  from assms obtain d where p: "p = JObj d"
    by (cases p) (auto simp: registry_record_def)
  from assms p obtain n k s where
    n: "dict_get d ''name'' (JStr []) = JStr n" and
    k: "as_int (dict_get d ''stars'' (JInt 0)) = Inr k" and
    s: "dict_get d ''description'' (JStr []) = JStr s"
    by (auto simp: registry_record_def split: json.splits sum.splits)
  show "\<exists>b. name_differs package_name p = Inr b" using p n by (simp add: name_differs_def)
  show "\<exists>k. stars_of p = Inr k" using p k by (simp add: stars_of_def)
  show "\<exists>s. alt_block e p = Inr s" using p k s by (simp add: alt_block_def Let_def slice_to_def)
qed

lemma name_differs_True:
  "name_differs package_name p = Inr True \<Longrightarrow>
   \<exists>d n. p = JObj d \<and> dict_get d ''name'' (JStr []) = JStr n \<and> lower n \<noteq> lower package_name"
  by (auto simp: name_differs_def split: json.splits)

text \<open>
  Claim C10. On a search result that is not an error and not empty, \<open>find_alternatives\<close>
  lists the first 6 of \<open>alternatives\<close> at most, one block each. The alternatives are the
  results whose name differs from the queried name when both are put in lower case, so
  no listed package has the queried name under that comparison; and the stars of the
  listed packages never increase down the list. On a list of registry records the call
  returns.
\<close>

theorem find_alternatives_listing:
  "data = api_get e ''search'' (search_params package_name language) \<and>
   \<not> is_error data \<and> truthy data \<longrightarrow>
     (\<forall>out. find_alternatives e package_name language = Inr out \<longrightarrow>
        (\<exists>items alts blocks keys.
           iter_values data = Inr items \<and>
           alternatives package_name data = Inr alts \<and>
           set alts = {p \<in> set items. name_differs package_name p = Inr True} \<and>
           map_err (alt_block e) (take 6 alts) = Inr blocks \<and>
           out = join [CHR 0x0A]
                   ((''Alternatives to '' @ [CHR 0x27] @ package_name @ [CHR 0x27] @ '':''
                     @ [CHR 0x0A]) # blocks) \<and>
           length blocks = min 6 (length alts) \<and>
           length blocks \<le> 6 \<and>
           (\<forall>p \<in> set (take 6 alts).
              \<exists>d n. p = JObj d \<and> dict_get d ''name'' (JStr []) = JStr n \<and>
                    lower n \<noteq> lower package_name) \<and>
           map_err stars_of (take 6 alts) = Inr keys \<and>
           sorted_wrt (\<lambda>a b. a \<ge> b) keys)) \<and>
     ((\<exists>ps. data = JArr ps \<and> list_all registry_record ps) \<longrightarrow>
        (\<exists>out. find_alternatives e package_name language = Inr out))"
proof (intro impI conjI allI)
  fix out
  assume h: "data = api_get e ''search'' (search_params package_name language) \<and>
   \<not> is_error data \<and> truthy data"
  assume o: "find_alternatives e package_name language = Inr out"
  let ?header = "''Alternatives to '' @ [CHR 0x27] @ package_name @ [CHR 0x27] @ '':'' @ [CHR 0x0A]"
  from h o obtain alts blocks where
    a: "alternatives package_name data = Inr alts" and
    b: "map_err (alt_block e) (take 6 alts) = Inr blocks" and
    out: "out = join [CHR 0x0A] (?header # blocks)"
    by (auto simp: find_alternatives_def Let_def split: sum.splits)
  from a obtain items kept where
    it: "iter_values data = Inr items" and
    f: "alt_filter package_name items = Inr kept" and
    s: "sort_by_stars kept = Inr alts"
    by (auto simp: alternatives_def split: sum.splits)
  from alt_filter_Inr [OF f] have kept: "kept = filter (\<lambda>p. name_differs package_name p = Inr True) items"
    by simp
  from sort_by_stars_Inr [OF s] obtain keys where
    keys: "map_err stars_of alts = Inr keys" "sorted_wrt (\<lambda>a b. a \<ge> b) keys"
    and set: "set alts = set kept" by blast
  have set': "set alts = {p \<in> set items. name_differs package_name p = Inr True}"
    using set kept by auto
  from map_err_Inr [OF b] have len: "length blocks = min 6 (length alts)"
    by (simp add: min.commute)
  then have le: "length blocks \<le> 6" by simp
  have names: "\<forall>p \<in> set (take 6 alts).
      \<exists>d n. p = JObj d \<and> dict_get d ''name'' (JStr []) = JStr n \<and> lower n \<noteq> lower package_name"
  proof
    fix p assume "p \<in> set (take 6 alts)"
    then have "p \<in> set alts" by (rule in_set_takeD)
    with set' have "name_differs package_name p = Inr True" by simp
    then show "\<exists>d n. p = JObj d \<and> dict_get d ''name'' (JStr []) = JStr n \<and> lower n \<noteq> lower package_name"
      by (rule name_differs_True)
  qed
  have k6: "map_err stars_of (take 6 alts) = Inr (take 6 keys)"
    using keys(1) by (rule map_err_take)
  have s6: "sorted_wrt (\<lambda>a b. a \<ge> b) (take 6 keys)"
    using keys(2) by (rule sorted_wrt_take)
  from it a set' b out len le names k6 s6
  show "\<exists>items alts blocks keys.
           iter_values data = Inr items \<and>
           alternatives package_name data = Inr alts \<and>
           set alts = {p \<in> set items. name_differs package_name p = Inr True} \<and>
           map_err (alt_block e) (take 6 alts) = Inr blocks \<and>
           out = join [CHR 0x0A] (?header # blocks) \<and>
           length blocks = min 6 (length alts) \<and>
           length blocks \<le> 6 \<and>
           (\<forall>p \<in> set (take 6 alts).
              \<exists>d n. p = JObj d \<and> dict_get d ''name'' (JStr []) = JStr n \<and>
                    lower n \<noteq> lower package_name) \<and>
           map_err stars_of (take 6 alts) = Inr keys \<and>
           sorted_wrt (\<lambda>a b. a \<ge> b) keys"
    by blast
next
  assume h: "data = api_get e ''search'' (search_params package_name language) \<and>
   \<not> is_error data \<and> truthy data"
  assume "\<exists>ps. data = JArr ps \<and> list_all registry_record ps"
  then obtain ps where d: "data = JArr ps" and rr: "\<forall>p \<in> set ps. registry_record p"
    by (auto simp: list_all_iff)
  have it: "iter_values data = Inr ps" using d by (simp add: iter_values_def)
  from rr registry_record_ok(1) have "\<forall>p \<in> set ps. \<exists>b. name_differs package_name p = Inr b"
    by blast
  from alt_filter_returns [OF this] obtain kept where f: "alt_filter package_name ps = Inr kept"
    by blast
  from alt_filter_Inr [OF f] have sub: "set kept \<subseteq> set ps" by auto
  with rr registry_record_ok(2) have "\<forall>p \<in> set kept. \<exists>k. stars_of p = Inr k" by blast
  from sort_by_stars_returns [OF this] obtain alts where s: "sort_by_stars kept = Inr alts"
    by blast
  from sort_by_stars_Inr(2) [OF s] sub have "set alts \<subseteq> set ps" by simp
  then have "set (take 6 alts) \<subseteq> set ps" using set_take_subset by fastforce
  with rr registry_record_ok(3) have "\<forall>p \<in> set (take 6 alts). \<exists>s. alt_block e p = Inr s"
    by blast
  from map_err_returns [OF this] obtain blocks where b: "map_err (alt_block e) (take 6 alts) = Inr blocks"
    by blast
  have a: "alternatives package_name data = Inr alts"
    using it f s by (simp add: alternatives_def)
  from h have eq: "api_get e ''search'' (search_params package_name language) = data"
    and ne: "\<not> is_error data" and t: "truthy data" by auto
  from ne t a b show "\<exists>out. find_alternatives e package_name language = Inr out"
    by (simp add: find_alternatives_def Let_def eq)
qed

theorem find_alternatives_listing_witness:
  "alternatives ''flask'' (JArr [quart_record, flask_record, bottle_record])
     = Inr [bottle_record, quart_record] \<and>
   (\<exists>out blocks keys.
      find_alternatives sample_env ''flask'' None = Inr out \<and>
      map_err (alt_block sample_env) (take 6 [bottle_record, quart_record]) = Inr blocks \<and>
      out = join [CHR 0x0A]
              ((''Alternatives to '' @ [CHR 0x27] @ ''flask'' @ [CHR 0x27] @ '':'' @ [CHR 0x0A]) # blocks) \<and>
      length blocks = 2 \<and>
      map_err stars_of (take 6 [bottle_record, quart_record]) = Inr keys \<and>
      sorted_wrt (\<lambda>a b. a \<ge> b) keys)"
proof -
  let ?data = "JArr [quart_record, flask_record, bottle_record]"
  have d: "?data = api_get sample_env ''search'' (search_params ''flask'' None)" by code_simp
  have ne: "\<not> is_error ?data" by simp
  have t: "truthy ?data" by simp
  have rr: "list_all registry_record [quart_record, flask_record, bottle_record]" by code_simp
  have al: "alternatives ''flask'' ?data = Inr [bottle_record, quart_record]" by code_simp
  note fa = find_alternatives_listing [of ?data sample_env "''flask''" None]
  from fa d ne t rr obtain out where o: "find_alternatives sample_env ''flask'' None = Inr out"
    by blast
  from fa d ne t o obtain items alts blocks keys where
    a: "alternatives ''flask'' ?data = Inr alts" and
    b: "map_err (alt_block sample_env) (take 6 alts) = Inr blocks" and
    out: "out = join [CHR 0x0A]
              ((''Alternatives to '' @ [CHR 0x27] @ ''flask'' @ [CHR 0x27] @ '':'' @ [CHR 0x0A]) # blocks)" and
    len: "length blocks = min 6 (length alts)" and
    k: "map_err stars_of (take 6 alts) = Inr keys" and
    s: "sorted_wrt (\<lambda>a b. a \<ge> b) keys"
    by blast
  from a al have alts: "alts = [bottle_record, quart_record]" by simp
  from len have len2: "length blocks = 2" unfolding alts by simp
  from o b out len2 k s have "\<exists>out blocks keys.
      find_alternatives sample_env ''flask'' None = Inr out \<and>
      map_err (alt_block sample_env) (take 6 [bottle_record, quart_record]) = Inr blocks \<and>
      out = join [CHR 0x0A]
              ((''Alternatives to '' @ [CHR 0x27] @ ''flask'' @ [CHR 0x27] @ '':'' @ [CHR 0x0A]) # blocks) \<and>
      length blocks = 2 \<and>
      map_err stars_of (take 6 [bottle_record, quart_record]) = Inr keys \<and>
      sorted_wrt (\<lambda>a b. a \<ge> b) keys"
    unfolding alts by blast
  with al show ?thesis by (rule conjI)
qed

section \<open>Properties of the comparison\<close>

lemma bind_Inr: "bind m f = Inr y \<longleftrightarrow> (\<exists>x. m = Inr x \<and> f x = Inr y)"
  by (cases m) (simp_all add: bind_def)

lemma bind_simps [simp]: "bind (Inr x) f = f x" "bind (Inl err) f = Inl err"
  by (simp_all add: bind_def)

lemma format_snapshot_stars:
  assumes "format_snapshot e snap = Inr block" and "\<not> has_key snap ''error''"
  shows "\<exists>s. as_int (dict_get snap ''stars'' (JInt 0)) = Inr s"
proof (cases "as_int (dict_get snap ''stars'' (JInt 0))")
  case (Inl err)
  with assms have False
    by (simp add: format_snapshot_def fmt_number_def split: option.splits)
  then show ?thesis ..
next
  case (Inr s)
  then show ?thesis by blast
qed

lemma package_snapshot_months:
  assumes "package_snapshot e name platform = Inr snap" and "\<not> has_key snap ''error''"
  shows "dict_get snap ''months_since_release'' JNull = JNull \<or>
         (\<exists>m. dict_get snap ''months_since_release'' JNull = JInt m)"
proof -
  let ?data = "api_get e (platform @ ''/'' @ name) []"
  from assms have ok: "\<not> (\<not> truthy ?data \<or> is_error ?data)"
    by (auto simp: package_snapshot_def Let_def has_key_def split: if_splits)
  with assms(1) obtain d where "?data = JObj d"
    by (cases ?data) (auto simp: package_snapshot_def Let_def)
  with assms(1) ok show ?thesis
    by (cases "months_since e (dict_get d ''latest_release_published_at'' (JStr []))")
       (auto simp: package_snapshot_def Let_def dict_get_def)
qed

lemma resolve_auto_mode:
  assumes "resolve_auto e item1 item2 = Inr (snap1, snap2, mode)"
  shows "(mode = ''package'' \<longleftrightarrow> \<not> is_repo item1 \<and> \<not> is_repo item2) \<and>
         (mode = ''package'' \<longrightarrow>
            (\<exists>p1 p2. package_snapshot e item1 p1 = Inr snap1 \<and> package_snapshot e item2 p2 = Inr snap2))"
  using assms
  by (auto simp: resolve_auto_def bind_Inr split: if_splits)

lemma resolve_mode:
  assumes "resolve e item1 item2 platform = Inr (snap1, snap2, mode)"
  shows "(mode = ''package'' \<longleftrightarrow> as_package platform item1 \<and> as_package platform item2) \<and>
         (mode = ''package'' \<longrightarrow>
            (\<exists>p1 p2. package_snapshot e item1 p1 = Inr snap1 \<and> package_snapshot e item2 p2 = Inr snap2))"
proof (cases "platform \<noteq> None \<and> platform \<noteq> Some []")
  case True
  then obtain p where p: "platform = Some p" "p \<noteq> []" by auto
  with assms show ?thesis
    by (auto simp: resolve_def as_package_def bind_Inr)
next
  case False
  then have "resolve e item1 item2 platform = resolve_auto e item1 item2"
    by (auto simp: resolve_def split: option.splits)
  with assms have "resolve_auto e item1 item2 = Inr (snap1, snap2, mode)" by simp
  from resolve_auto_mode [OF this] False show ?thesis
    by (auto simp: as_package_def)
qed

lemma verdicts_error:
  "has_key snap1 ''error'' \<or> has_key snap2 ''error'' \<Longrightarrow>
   verdicts item1 item2 snap1 snap2 mode = Inr []"
  by (auto simp: verdicts_def)

lemma verdicts_both:
  assumes "\<not> has_key snap1 ''error''" "\<not> has_key snap2 ''error''"
    and "as_int (dict_get snap1 ''stars'' (JInt 0)) = Inr stars1"
    and "as_int (dict_get snap2 ''stars'' (JInt 0)) = Inr stars2"
    and "mode = ''package''"
    and "dict_get snap1 ''months_since_release'' JNull = JInt m1"
    and "dict_get snap2 ''months_since_release'' JNull = JInt m2"
  shows "verdicts item1 item2 snap1 snap2 mode =
     Inr [''More popular        : '' @ (if stars2 \<le> stars1 then item1 else item2),
          ''More recently updated: '' @ (if m1 \<le> m2 then item1 else item2)]"
  using assms by (simp add: verdicts_def Let_def)

lemma verdicts_popular:
  assumes "\<not> has_key snap1 ''error''" "\<not> has_key snap2 ''error''"
    and "as_int (dict_get snap1 ''stars'' (JInt 0)) = Inr stars1"
    and "as_int (dict_get snap2 ''stars'' (JInt 0)) = Inr stars2"
    and "mode \<noteq> ''package'' \<or> dict_get snap1 ''months_since_release'' JNull = JNull
         \<or> dict_get snap2 ''months_since_release'' JNull = JNull"
  shows "verdicts item1 item2 snap1 snap2 mode =
     Inr [''More popular        : '' @ (if stars2 \<le> stars1 then item1 else item2)]"
  using assms by (auto simp: verdicts_def Let_def)

text \<open>
  Claim C5. When both snapshots resolved and were formatted, \<open>compare\<close> returns its five
  lines of comparison and then the verdicts. With an error in either snapshot it adds
  none. Otherwise it adds "More popular", naming the item with more stars and the first
  item on a tie; and after it "More recently updated" exactly when both items were
  resolved as packages (mode \<open>package\<close>) and both have their months since release,
  naming the item with fewer months and the first item on a tie.
\<close>

theorem compare_verdicts:
  "resolve e item1 item2 platform = Inr (snap1, snap2, mode) \<and>
   format_snapshot e snap1 = Inr block1 \<and> format_snapshot e snap2 = Inr block2 \<longrightarrow>
     (\<exists>out.
        compare_lines e item1 item2 platform = Inr out \<and>
        take 5 out =
          [''Comparing: '' @ item1 @ '' vs '' @ item2 @ [CHR 0x0A] @ replicate 40 (CHR ''=''),
           block1, concat (replicate 40 [CHR 0xE2, CHR 0x94, CHR 0x80]), block2,
           replicate 40 (CHR ''='')] \<and>
        (mode = ''package'' \<longleftrightarrow> as_package platform item1 \<and> as_package platform item2) \<and>
        (has_key snap1 ''error'' \<or> has_key snap2 ''error'' \<longrightarrow> drop 5 out = []) \<and>
        (\<not> has_key snap1 ''error'' \<and> \<not> has_key snap2 ''error'' \<longrightarrow>
           (\<exists>stars1 stars2.
              as_int (dict_get snap1 ''stars'' (JInt 0)) = Inr stars1 \<and>
              as_int (dict_get snap2 ''stars'' (JInt 0)) = Inr stars2 \<and>
              hd (drop 5 out) = ''More popular        : '' @ (if stars2 \<le> stars1 then item1 else item2) \<and>
              (\<forall>m1 m2.
                 mode = ''package'' \<and>
                 dict_get snap1 ''months_since_release'' JNull = JInt m1 \<and>
                 dict_get snap2 ''months_since_release'' JNull = JInt m2 \<longrightarrow>
                 tl (drop 5 out) = [''More recently updated: '' @ (if m1 \<le> m2 then item1 else item2)]) \<and>
              (mode \<noteq> ''package'' \<or>
               dict_get snap1 ''months_since_release'' JNull = JNull \<or>
               dict_get snap2 ''months_since_release'' JNull = JNull \<longrightarrow>
                 tl (drop 5 out) = []) \<and>
              (mode = ''package'' \<longrightarrow>
                 (dict_get snap1 ''months_since_release'' JNull = JNull \<or>
                  (\<exists>m. dict_get snap1 ''months_since_release'' JNull = JInt m)) \<and>
                 (dict_get snap2 ''months_since_release'' JNull = JNull \<or>
                  (\<exists>m. dict_get snap2 ''months_since_release'' JNull = JInt m))))))"
proof (rule impI)
  assume h: "resolve e item1 item2 platform = Inr (snap1, snap2, mode) \<and>
   format_snapshot e snap1 = Inr block1 \<and> format_snapshot e snap2 = Inr block2"
  let ?base = "[''Comparing: '' @ item1 @ '' vs '' @ item2 @ [CHR 0x0A] @ replicate 40 (CHR ''=''),
           block1, concat (replicate 40 [CHR 0xE2, CHR 0x94, CHR 0x80]), block2,
           replicate 40 (CHR ''='')]"
  let ?m1 = "dict_get snap1 ''months_since_release'' JNull"
  let ?m2 = "dict_get snap2 ''months_since_release'' JNull"
  from h have cl: "compare_lines e item1 item2 platform =
      bind (verdicts item1 item2 snap1 snap2 mode) (\<lambda>appended. Inr (?base @ appended))"
    by (simp add: compare_lines_def)
  from h resolve_mode have md: "mode = ''package'' \<longleftrightarrow> as_package platform item1 \<and> as_package platform item2"
    by blast
  show "\<exists>out.
        compare_lines e item1 item2 platform = Inr out \<and>
        take 5 out = ?base \<and>
        (mode = ''package'' \<longleftrightarrow> as_package platform item1 \<and> as_package platform item2) \<and>
        (has_key snap1 ''error'' \<or> has_key snap2 ''error'' \<longrightarrow> drop 5 out = []) \<and>
        (\<not> has_key snap1 ''error'' \<and> \<not> has_key snap2 ''error'' \<longrightarrow>
           (\<exists>stars1 stars2.
              as_int (dict_get snap1 ''stars'' (JInt 0)) = Inr stars1 \<and>
              as_int (dict_get snap2 ''stars'' (JInt 0)) = Inr stars2 \<and>
              hd (drop 5 out) = ''More popular        : '' @ (if stars2 \<le> stars1 then item1 else item2) \<and>
              (\<forall>m1 m2.
                 mode = ''package'' \<and> ?m1 = JInt m1 \<and> ?m2 = JInt m2 \<longrightarrow>
                 tl (drop 5 out) = [''More recently updated: '' @ (if m1 \<le> m2 then item1 else item2)]) \<and>
              (mode \<noteq> ''package'' \<or> ?m1 = JNull \<or> ?m2 = JNull \<longrightarrow> tl (drop 5 out) = []) \<and>
              (mode = ''package'' \<longrightarrow>
                 (?m1 = JNull \<or> (\<exists>m. ?m1 = JInt m)) \<and> (?m2 = JNull \<or> (\<exists>m. ?m2 = JInt m)))))"
  proof (cases "has_key snap1 ''error'' \<or> has_key snap2 ''error''")
    case True
    then have "verdicts item1 item2 snap1 snap2 mode = Inr []" by (rule verdicts_error)
    with cl have "compare_lines e item1 item2 platform = Inr ?base" by simp
    with True md show ?thesis by auto
  next
    case False
    then have ne: "\<not> has_key snap1 ''error''" "\<not> has_key snap2 ''error''" by auto
    from h ne format_snapshot_stars obtain stars1 stars2 where
      st: "as_int (dict_get snap1 ''stars'' (JInt 0)) = Inr stars1"
          "as_int (dict_get snap2 ''stars'' (JInt 0)) = Inr stars2"
      by blast
    let ?popular = "''More popular        : '' @ (if stars2 \<le> stars1 then item1 else item2)"
    have months: "(?m1 = JNull \<or> (\<exists>m. ?m1 = JInt m)) \<and> (?m2 = JNull \<or> (\<exists>m. ?m2 = JInt m))"
      if "mode = ''package''"
    proof -
      from h that resolve_mode obtain p1 p2 where
        "package_snapshot e item1 p1 = Inr snap1" "package_snapshot e item2 p2 = Inr snap2"
        by blast
      with ne package_snapshot_months show ?thesis by blast
    qed
    show ?thesis
    proof (cases "mode \<noteq> ''package'' \<or> ?m1 = JNull \<or> ?m2 = JNull")
      case True
      from verdicts_popular [OF ne st True]
      have "verdicts item1 item2 snap1 snap2 mode = Inr [?popular]" .
      with cl have out: "compare_lines e item1 item2 platform = Inr (?base @ [?popular])" by simp
      have "\<forall>m1 m2. mode = ''package'' \<and> ?m1 = JInt m1 \<and> ?m2 = JInt m2 \<longrightarrow>
          tl [?popular] = [''More recently updated: '' @ (if m1 \<le> m2 then item1 else item2)]"
        using True by auto
      with out md ne st months True show ?thesis
        by (intro exI [of _ "?base @ [?popular]"] conjI impI exI [of _ stars1] exI [of _ stars2])
           simp_all
    next
      case False
      then have pk: "mode = ''package''" and nn: "?m1 \<noteq> JNull" "?m2 \<noteq> JNull" by auto
      from months [OF pk] nn obtain a b where ab: "?m1 = JInt a" "?m2 = JInt b" by blast
      let ?recent = "''More recently updated: '' @ (if a \<le> b then item1 else item2)"
      from verdicts_both [OF ne st pk ab]
      have "verdicts item1 item2 snap1 snap2 mode = Inr [?popular, ?recent]" .
      with cl have out: "compare_lines e item1 item2 platform = Inr (?base @ [?popular, ?recent])"
        by simp
      have rec: "\<forall>m1 m2. mode = ''package'' \<and> ?m1 = JInt m1 \<and> ?m2 = JInt m2 \<longrightarrow>
          tl [?popular, ?recent] = [''More recently updated: '' @ (if m1 \<le> m2 then item1 else item2)]"
        using ab by simp
      have none: "mode \<noteq> ''package'' \<or> ?m1 = JNull \<or> ?m2 = JNull \<longrightarrow> tl [?popular, ?recent] = []"
        using False by blast
      from out md ne st months rec none show ?thesis
        by (intro exI [of _ "?base @ [?popular, ?recent]"] conjI impI exI [of _ stars1] exI [of _ stars2])
           simp_all
    qed
  qed
qed

lemma sum_case_Inr: "(case m of Inl err \<Rightarrow> False | Inr x \<Rightarrow> True) \<Longrightarrow> \<exists>x. m = Inr x"
  by (cases m) simp_all

theorem compare_verdicts_witness:
  "(\<exists>out. compare_lines sample_env ''bottle'' ''quart'' (Some ''pypi'') = Inr out \<and>
      hd (drop 5 out) = ''More popular        : bottle'' \<and>
      tl (drop 5 out) = [''More recently updated: quart'']) \<and>
   (\<exists>out. compare_lines sample_env ''bottle'' ''ghost'' (Some ''pypi'') = Inr out \<and>
      drop 5 out = [])"
proof -
  define bottle where "bottle = [(''name'', JStr ''bottle''), (''platform'', JStr ''pypi''),
      (''description'', JStr ''A fast micro framework''), (''stars'', JInt 8000),
      (''forks'', JInt 0), (''open_issues'', JInt 0), (''contributors'', JInt 1),
      (''latest_version'', JStr ''N/A''), (''months_since_release'', JInt 3),
      (''deprecated'', JBool False), (''homepage'', JStr ''N/A'')]"
  define quart where "quart = [(''name'', JStr ''quart''), (''platform'', JStr ''pypi''),
      (''description'', JStr ''An async web framework''), (''stars'', JInt 2000),
      (''forks'', JInt 0), (''open_issues'', JInt 0), (''contributors'', JInt 30),
      (''latest_version'', JStr ''N/A''), (''months_since_release'', JInt 0),
      (''deprecated'', JBool False), (''homepage'', JStr ''N/A'')]"
  define ghost where "ghost = [(''error'', JStr (''Could not find '' @ [CHR 0x27] @ ''ghost'' @ [CHR 0x27] @ '' on pypi''))]"
  have r1: "resolve sample_env ''bottle'' ''quart'' (Some ''pypi'') = Inr (bottle, quart, ''package'')"
    unfolding bottle_def quart_def by code_simp
  have r2: "resolve sample_env ''bottle'' ''ghost'' (Some ''pypi'') = Inr (bottle, ghost, ''package'')"
    unfolding bottle_def ghost_def by code_simp
  have "case format_snapshot sample_env bottle of Inl err \<Rightarrow> False | Inr b \<Rightarrow> True"
    unfolding bottle_def by code_simp
  then obtain b1 where f1: "format_snapshot sample_env bottle = Inr b1" by (auto dest: sum_case_Inr)
  have "case format_snapshot sample_env quart of Inl err \<Rightarrow> False | Inr b \<Rightarrow> True"
    unfolding quart_def by code_simp
  then obtain b2 where f2: "format_snapshot sample_env quart = Inr b2" by (auto dest: sum_case_Inr)
  have "case format_snapshot sample_env ghost of Inl err \<Rightarrow> False | Inr b \<Rightarrow> True"
    unfolding ghost_def by code_simp
  then obtain b3 where f3: "format_snapshot sample_env ghost = Inr b3" by (auto dest: sum_case_Inr)
  have e1: "\<not> has_key bottle ''error'' \<and> \<not> has_key quart ''error''"
    by (simp add: has_key_def bottle_def quart_def)
  have e2: "has_key bottle ''error'' \<or> has_key ghost ''error''"
    by (simp add: has_key_def ghost_def)
  have v: "as_int (dict_get bottle ''stars'' (JInt 0)) = Inr 8000"
    "as_int (dict_get quart ''stars'' (JInt 0)) = Inr 2000"
    by (simp_all add: dict_get_def bottle_def quart_def)
  have m: "''package'' = ''package'' \<and> dict_get bottle ''months_since_release'' JNull = JInt 3 \<and>
    dict_get quart ''months_since_release'' JNull = JInt 0"
    by (simp add: dict_get_def bottle_def quart_def)
  note c1 = compare_verdicts [of sample_env "''bottle''" "''quart''" "Some ''pypi''" bottle quart
      "''package''" b1 b2, THEN mp, OF conjI [OF r1 conjI [OF f1 f2]]]
  then obtain out where o: "compare_lines sample_env ''bottle'' ''quart'' (Some ''pypi'') = Inr out"
    and rest: "\<not> has_key bottle ''error'' \<and> \<not> has_key quart ''error'' \<longrightarrow>
           (\<exists>stars1 stars2.
              as_int (dict_get bottle ''stars'' (JInt 0)) = Inr stars1 \<and>
              as_int (dict_get quart ''stars'' (JInt 0)) = Inr stars2 \<and>
              hd (drop 5 out) = ''More popular        : '' @ (if stars2 \<le> stars1 then ''bottle'' else ''quart'') \<and>
              (\<forall>m1 m2.
                 ''package'' = ''package'' \<and>
                 dict_get bottle ''months_since_release'' JNull = JInt m1 \<and>
                 dict_get quart ''months_since_release'' JNull = JInt m2 \<longrightarrow>
                 tl (drop 5 out) = [''More recently updated: '' @ (if m1 \<le> m2 then ''bottle'' else ''quart'')]) \<and>
              (''package'' \<noteq> ''package'' \<or>
               dict_get bottle ''months_since_release'' JNull = JNull \<or>
               dict_get quart ''months_since_release'' JNull = JNull \<longrightarrow>
                 tl (drop 5 out) = []) \<and>
              (''package'' = ''package'' \<longrightarrow>
                 (dict_get bottle ''months_since_release'' JNull = JNull \<or>
                  (\<exists>m. dict_get bottle ''months_since_release'' JNull = JInt m)) \<and>
                 (dict_get quart ''months_since_release'' JNull = JNull \<or>
                  (\<exists>m. dict_get quart ''months_since_release'' JNull = JInt m))))"
    by (elim exE conjE)
  from rest [THEN mp, OF e1] obtain stars1 stars2 where
    s1: "as_int (dict_get bottle ''stars'' (JInt 0)) = Inr stars1" and
    s2: "as_int (dict_get quart ''stars'' (JInt 0)) = Inr stars2" and
    pop: "hd (drop 5 out) = ''More popular        : '' @ (if stars2 \<le> stars1 then ''bottle'' else ''quart'')" and
    rec: "\<forall>m1 m2. ''package'' = ''package'' \<and>
           dict_get bottle ''months_since_release'' JNull = JInt m1 \<and>
           dict_get quart ''months_since_release'' JNull = JInt m2 \<longrightarrow>
           tl (drop 5 out) = [''More recently updated: '' @ (if m1 \<le> m2 then ''bottle'' else ''quart'')]"
    by (elim exE conjE)
  from s1 s2 v have "stars1 = 8000" "stars2 = 2000" by simp_all
  with pop have pop': "hd (drop 5 out) = ''More popular        : bottle''" by simp
  from rec [THEN spec, THEN spec, THEN mp, OF m]
  have rec': "tl (drop 5 out) = [''More recently updated: quart'']" by simp
  note c2 = compare_verdicts [of sample_env "''bottle''" "''ghost''" "Some ''pypi''" bottle ghost
      "''package''" b1 b3, THEN mp, OF conjI [OF r2 conjI [OF f1 f3]]]
  then obtain out2 where o2: "compare_lines sample_env ''bottle'' ''ghost'' (Some ''pypi'') = Inr out2"
    and err: "has_key bottle ''error'' \<or> has_key ghost ''error'' \<longrightarrow> drop 5 out2 = []"
    by (elim exE conjE)
  from err [THEN mp, OF e2] have d2: "drop 5 out2 = []" .
  from o pop' rec' have A: "\<exists>out. compare_lines sample_env ''bottle'' ''quart'' (Some ''pypi'') = Inr out \<and>
      hd (drop 5 out) = ''More popular        : bottle'' \<and>
      tl (drop 5 out) = [''More recently updated: quart'']"
    by (intro exI [of _ out] conjI)
  from o2 d2 have B: "\<exists>out. compare_lines sample_env ''bottle'' ''ghost'' (Some ''pypi'') = Inr out \<and>
      drop 5 out = []"
    by (intro exI [of _ out2] conjI)
  from A B show ?thesis by (rule conjI)
qed

end
